theory Spec2Isabelle
  imports Main "HOL-Library.Char_ord" "HOL-Library.List_Lexorder" "HOL-Library.Sublist"
begin

section \<open>The migration framework of \<^verbatim>\<open>yunohost/tools.py\<close>\<close>

text \<open>
  A shallow embedding of the migration management code of \<^verbatim>\<open>src/yunohost/tools.py\<close>
  (\<^verbatim>\<open>tools_migrations_list\<close>, \<^verbatim>\<open>tools_migrations_run\<close>, \<^verbatim>\<open>tools_migrations_state\<close>,
  \<^verbatim>\<open>_write_migration_state\<close>, \<^verbatim>\<open>_get_migrations_list\<close>, \<^verbatim>\<open>_load_migration\<close> and the class
  \<^verbatim>\<open>Migration\<close> with its decorator \<^verbatim>\<open>ldap_migration\<close>).

  Conventions of the model:
  \<^item> a Python \<^verbatim>\<open>str\<close> is the \<open>string\<close> of the bytes of its UTF-8 encoding (a code point of
    the range D800 to DFFF, which a file name may hold, encoded as the others are). Two \<^verbatim>\<open>str\<close> values are equal when their bytes are,
    \<^verbatim>\<open>+\<close> and \<^verbatim>\<open>join\<close> are concatenation, a split at an ASCII character is a split at its
    byte, and Python's order on \<^verbatim>\<open>str\<close> (code point by code point) is the lexicographic order
    of the bytes (\<open>HOL-Library.Char_ord\<close>, \<open>HOL-Library.List_Lexorder\<close>), which UTF-8 keeps.
    A character outside ASCII is several bytes; which of these characters are decimal
    digits, for \<^verbatim>\<open>\d\<close> of \<^verbatim>\<open>re\<close> and for \<^verbatim>\<open>int\<close>, is a table of the Python runtime, a
    parameter of the model;
  \<^item> an exception is a value of type \<open>exn\<close>. The handlers of the source are all
    \<^verbatim>\<open>except Exception\<close>, and \<open>exn\<close> stands for the instances of \<^verbatim>\<open>Exception\<close>;
  \<^item> a localised message \<^verbatim>\<open>m18n.n(key, **kwargs)\<close> is the pair of its key and its keyword
    arguments: the translation tables are not part of the code.
\<close>

subsection \<open>Exceptions and messages\<close>

type_synonym kwargs = "(string \<times> string) list"

datatype exn =
    YunohostValidationError string kwargs
  | YunohostError string kwargs
  | Exception string

text \<open>\<^verbatim>\<open>str(e)\<close>: the text carried by a plain exception; for the two YunoHost errors the
  message key stands for its translation.\<close>

fun py_str :: "exn \<Rightarrow> string" where
  "py_str (Exception s) = s"
| "py_str (YunohostValidationError k _) = k"
| "py_str (YunohostError k _) = k"

text \<open>\<^verbatim>\<open>sep.join(xs)\<close>\<close>

fun join :: "string \<Rightarrow> string list \<Rightarrow> string" where
  "join sep [] = []"
| "join sep [x] = x"
| "join sep (x # y # ys) = x @ sep @ join sep (y # ys)"

subsection \<open>Migration descriptors\<close>

text \<open>
  What a module \<^verbatim>\<open>yunohost.data_migrations.<id>\<close> supplies through its class
  \<^verbatim>\<open>MyMigration\<close>: the class attributes \<^verbatim>\<open>mode\<close> and \<^verbatim>\<open>dependencies\<close>, the property
  \<^verbatim>\<open>disclaimer\<close> and the method \<^verbatim>\<open>run\<close>. The body \<^verbatim>\<open>run\<close> acts on the part \<open>'sys\<close> of the
  machine that migrations change; it returns \<open>None\<close> when it returns normally and
  \<open>Some e\<close> when it raises \<open>e\<close>. The file \<^verbatim>\<open>migrations.yaml\<close> is kept apart from \<open>'sys\<close>:
  it is written by \<^verbatim>\<open>_write_migration_state\<close> and \<^verbatim>\<open>_skip_all_migrations\<close> only. The property
  \<^verbatim>\<open>disclaimer\<close> is taken to give the same text each time it is read.
\<close>

record 'sys descriptor =
  d_mode :: string
  d_dependencies :: "string list"
  d_disclaimer :: "string option"
  d_run :: "'sys \<Rightarrow> exn option \<times> 'sys"

record 'sys migration =
  mig_id :: string
  number :: int
  name :: string
  mode :: string
  dependencies :: "string list"
  disclaimer :: "string option"
  run :: "'sys \<Rightarrow> exn option \<times> 'sys"
  state :: string

definition is_digit :: "char \<Rightarrow> bool" where
  "is_digit c = (CHR ''0'' \<le> c \<and> c \<le> CHR ''9'')"

definition is_alpha :: "char \<Rightarrow> bool" where
  "is_alpha c = ((CHR ''a'' \<le> c \<and> c \<le> CHR ''z'') \<or> (CHR ''A'' \<le> c \<and> c \<le> CHR ''Z''))"

text \<open>The class \<^verbatim>\<open>[a-zA-Z0-9_]\<close>.\<close>

definition is_word :: "char \<Rightarrow> bool" where
  "is_word c = (is_alpha c \<or> is_digit c \<or> c = CHR ''_'')"

definition digit_val :: "char \<Rightarrow> int" where
  "digit_val c = int (of_char c) - 48"

text \<open>
  The decimal digits of Unicode (category Nd), which \<^verbatim>\<open>\d\<close> matches and \<^verbatim>\<open>int\<close> reads. The
  ASCII digits are \<open>is_digit\<close> with the values \<open>digit_val\<close>. For a character outside ASCII,
  given by its bytes, the table \<open>tbl\<close> of the runtime (\<^verbatim>\<open>unicodedata.decimal\<close>) gives the value,
  or \<open>None\<close> when the character is no decimal digit.
\<close>

type_synonym decimals = "string \<Rightarrow> nat option"

text \<open>The number of bytes of the character that starts with the byte \<open>c\<close>.\<close>

definition utf8_width :: "char \<Rightarrow> nat" where
  "utf8_width c =
     (let n = (of_char c :: nat)
      in if n < 0xC0 then 1 else if n < 0xE0 then 2 else if n < 0xF0 then 3 else 4)"

definition decimal_of :: "decimals \<Rightarrow> string \<Rightarrow> int option" where
  "decimal_of tbl ch =
     (case ch of
        [c] \<Rightarrow> if is_digit c then Some (digit_val c) else None
      | _ \<Rightarrow> map_option int (tbl ch))"

text \<open>The values of the longest prefix of decimal digits of a string, and the rest of the
  string.\<close>

fun scan_decimals :: "decimals \<Rightarrow> string \<Rightarrow> int list \<times> string" where
  "scan_decimals tbl [] = ([], [])"
| "scan_decimals tbl (c # cs) =
     (case decimal_of tbl (c # take (utf8_width c - 1) cs) of
        None \<Rightarrow> ([], c # cs)
      | Some v \<Rightarrow>
         (case scan_decimals tbl (drop (utf8_width c - 1) cs) of (vs, r) \<Rightarrow> (v # vs, r)))"

text \<open>
  \<^verbatim>\<open>int(s)\<close> on a string of decimal digits; \<open>None\<close> is \<^verbatim>\<open>ValueError\<close>. The program calls
  \<^verbatim>\<open>int\<close> on \<^verbatim>\<open>id.split("_", 1)[0]\<close> only, which holds no underscore; signs and surrounding
  white space, which \<^verbatim>\<open>int\<close> would accept, are not modelled and give \<open>None\<close>.
\<close>

definition py_int :: "decimals \<Rightarrow> string \<Rightarrow> int option" where
  "py_int tbl s =
     (case scan_decimals tbl s of
        (vs, r) \<Rightarrow> if vs \<noteq> [] \<and> r = [] then Some (foldl (\<lambda>a v. 10 * a + v) 0 vs) else None)"

text \<open>\<^verbatim>\<open>s.split("_")[0]\<close> and \<^verbatim>\<open>s.split("_", 1)[0]\<close>: the text before the first underscore.\<close>

definition split_head :: "string \<Rightarrow> string" where
  "split_head s = takeWhile (\<lambda>c. c \<noteq> CHR ''_'') s"

text \<open>\<^verbatim>\<open>s.split("_", 1)[1]\<close>: the text after the first underscore; \<open>None\<close> is
  \<^verbatim>\<open>IndexError\<close>, when \<open>s\<close> holds no underscore.\<close>

definition split_rest :: "string \<Rightarrow> string option" where
  "split_rest s = (case dropWhile (\<lambda>c. c \<noteq> CHR ''_'') s of [] \<Rightarrow> None | _ # r \<Rightarrow> Some r)"

text \<open>
  \<^verbatim>\<open>module.MyMigration(migration_id)\<close>, that is \<^verbatim>\<open>Migration.__init__\<close> on an instance of the
  class described by \<open>d\<close>; \<open>None\<close> when \<^verbatim>\<open>int\<close> or the indexing raises. The field \<open>state\<close> is
  set by the caller; it starts as the empty string here.
\<close>

definition Migration_init :: "decimals \<Rightarrow> 'sys descriptor \<Rightarrow> string \<Rightarrow> 'sys migration option" where
  "Migration_init tbl d ident =
     (case py_int tbl (split_head ident) of
        None \<Rightarrow> None
      | Some n \<Rightarrow>
         (case split_rest ident of
            None \<Rightarrow> None
          | Some nm \<Rightarrow>
              Some \<lparr> mig_id = ident, number = n, name = nm, mode = d_mode d,
                     dependencies = d_dependencies d, disclaimer = d_disclaimer d,
                     run = d_run d, state = [] \<rparr>))"

subsection \<open>The registry: discovery and loading\<close>

text \<open>
  What \<^verbatim>\<open>_get_migrations_list\<close> finds on the machine: the package \<^verbatim>\<open>data_migrations\<close> cannot
  be imported, or its directory \<^verbatim>\<open>data_migrations.__path__[0]\<close> does not exist (\<open>No_directory\<close>
  with that path), or \<^verbatim>\<open>os.listdir\<close> gives its entries.
\<close>

datatype discovery = No_package | No_directory string | Listdir "string list"

text \<open>\<open>modules\<close> is \<^verbatim>\<open>import_module("yunohost.data_migrations.<id>")\<close>: \<open>None\<close> when the import
  raises. \<open>unicode_decimal\<close> is the table of the decimal digits outside ASCII of the runtime.\<close>

record 'sys registry =
  discovered :: discovery
  modules :: "string \<Rightarrow> 'sys descriptor option"
  unicode_decimal :: decimals

text \<open>
  \<^verbatim>\<open>re.match(r"^\d+_[a-zA-Z0-9_]+\.py$", x)\<close>. Without \<^verbatim>\<open>re.MULTILINE\<close> the anchor \<^verbatim>\<open>$\<close>
  matches at the end of the string and also just before a newline that ends the string.
  The digits are the longest prefix of decimal digits, of any script (the next character
  must be the underscore, which is no digit), and the word characters, which are ASCII, run
  up to the first dot.
\<close>

definition chomp :: "string \<Rightarrow> string" where
  "chomp x = (if x \<noteq> [] \<and> last x = CHR 0x0A then butlast x else x)"

definition migration_file_re :: "decimals \<Rightarrow> string \<Rightarrow> bool" where
  "migration_file_re tbl x =
     (let y = chomp x;
          ds = fst (scan_decimals tbl y);
          r = snd (scan_decimals tbl y);
          w = takeWhile is_word (drop 1 r)
      in ds \<noteq> [] \<and> take 1 r = ''_'' \<and> w \<noteq> [] \<and> dropWhile is_word (drop 1 r) = ''.py'')"

text \<open>\<^verbatim>\<open>_load_migration\<close>; \<^verbatim>\<open>migration_file[: -len(".py")]\<close> drops the last three characters,
  which are three bytes in a file name that \<open>migration_file_re\<close> accepts.
  Of the keyword arguments of the error, \<^verbatim>\<open>error=e\<close> (the exception of the import) is left out.\<close>

definition load_migration :: "'sys registry \<Rightarrow> string \<Rightarrow> exn + 'sys migration" where
  "load_migration reg migration_file =
     (let migration_id = take (length migration_file - 3) migration_file
      in case modules reg migration_id of
           None \<Rightarrow> Inl (YunohostError ''migrations_failed_to_load_migration'' [(''id'', migration_id)])
         | Some d \<Rightarrow>
            (case Migration_init (unicode_decimal reg) d migration_id of
               None \<Rightarrow> Inl (YunohostError ''migrations_failed_to_load_migration'' [(''id'', migration_id)])
             | Some m \<Rightarrow> Inr m))"

subsection \<open>The persisted state\<close>

text \<open>
  The file \<^verbatim>\<open>/etc/yunohost/migrations.yaml\<close>: \<open>None\<close> when it does not exist, otherwise the
  mapping under its key \<^verbatim>\<open>migrations\<close>, from migration ids to states.
\<close>

type_synonym states = "string \<Rightarrow> string option"
type_synonym state_file = "states option"

text \<open>\<^verbatim>\<open>tools_migrations_state()["migrations"]\<close>\<close>

definition tools_migrations_state :: "state_file \<Rightarrow> states" where
  "tools_migrations_state f = (case f of None \<Rightarrow> Map.empty | Some m \<Rightarrow> m)"

definition write_migration_state :: "string \<Rightarrow> string \<Rightarrow> state_file \<Rightarrow> state_file" where
  "write_migration_state migration_id st f =
     (let current_states = tools_migrations_state f
      in Some (current_states(migration_id \<mapsto> st)))"

text \<open>The loop of \<^verbatim>\<open>_get_migrations_list\<close> over the matching file names: it stops at the first
  migration that fails to load.\<close>

fun load_all :: "'sys registry \<Rightarrow> states \<Rightarrow> string list \<Rightarrow> exn + 'sys migration list" where
  "load_all reg sts [] = Inr []"
| "load_all reg sts (migration_file # fs) =
     (case load_migration reg migration_file of
        Inl e \<Rightarrow> Inl e
      | Inr m \<Rightarrow>
         (case load_all reg sts fs of
            Inl e \<Rightarrow> Inl e
          | Inr ms \<Rightarrow>
              Inr (m\<lparr>state := (case sts (mig_id m) of None \<Rightarrow> ''pending'' | Some s \<Rightarrow> s)\<rparr> # ms)))"

text \<open>
  \<^verbatim>\<open>_get_migrations_list\<close>: what it returns or raises; \<^verbatim>\<open>sorted\<close> is a stable sort on the key
  \<^verbatim>\<open>m.id\<close>, as \<open>sort_key\<close> is. What it logs is \<open>get_migrations_list_log\<close> below.
\<close>

definition get_migrations_list :: "'sys registry \<Rightarrow> state_file \<Rightarrow> exn + 'sys migration list" where
  "get_migrations_list reg f =
     (case discovered reg of
        No_package \<Rightarrow> Inr []
      | No_directory p \<Rightarrow> Inr []
      | Listdir xs \<Rightarrow>
         (case load_all reg (tools_migrations_state f)
                 (filter (migration_file_re (unicode_decimal reg)) xs) of
            Inl e \<Rightarrow> Inl e
          | Inr ms \<Rightarrow> Inr (sort_key mig_id ms)))"

subsection \<open>Listing\<close>

text \<open>A dictionary of the list that \<^verbatim>\<open>tools_migrations_list\<close> returns; \<open>i_description\<close> is the
  key of the message \<^verbatim>\<open>m18n.n("migration_description_%s" % self.id)\<close>.\<close>

record migration_info =
  i_id :: string
  i_number :: int
  i_name :: string
  i_mode :: string
  i_state :: string
  i_description :: string
  i_disclaimer :: "string option"

definition info_of :: "'sys migration \<Rightarrow> migration_info" where
  "info_of m = \<lparr> i_id = mig_id m, i_number = number m, i_name = name m, i_mode = mode m,
                 i_state = state m, i_description = ''migration_description_'' @ mig_id m,
                 i_disclaimer = disclaimer m \<rparr>"

text \<open>\<^verbatim>\<open>tools_migrations_list\<close>: what it returns or raises. After the test of the two flags it
  logs what \<^verbatim>\<open>_get_migrations_list\<close> logs.\<close>

definition tools_migrations_list ::
  "'sys registry \<Rightarrow> bool \<Rightarrow> bool \<Rightarrow> state_file \<Rightarrow> exn + migration_info list" where
  "tools_migrations_list reg pending done f =
     (if pending \<and> done
      then Inl (YunohostValidationError ''migrations_list_conflict_pending_done'' [])
      else
        (case get_migrations_list reg f of
           Inl e \<Rightarrow> Inl e
         | Inr ms \<Rightarrow>
            (let migrations = map info_of ms;
                 migrations1 = (if done then filter (\<lambda>m. i_state m \<noteq> ''pending'') migrations
                                else migrations);
                 migrations2 = (if pending then filter (\<lambda>m. i_state m = ''pending'') migrations1
                                else migrations1)
             in Inr migrations2)))"

subsection \<open>Running migrations\<close>

text \<open>
  What a run leaves behind, in order: the calls of the logger at the levels info, warning,
  error and success (the calls of \<^verbatim>\<open>logger.debug\<close> are not recorded), the calls of the
  \<^verbatim>\<open>OperationLogger\<close> (the unit of work of one migration) and the calls of \<^verbatim>\<open>migration.run()\<close>.
  A positional argument of \<^verbatim>\<open>m18n.n\<close> has the empty name.
\<close>

datatype level = L_info | L_warn | L_error | L_success

datatype event =
    Logger level string kwargs
  | Operation_start string
  | Operation_success
  | Operation_error string kwargs
  | Run string

text \<open>What \<^verbatim>\<open>_get_migrations_list\<close> logs: the warning of the branch
  \<^verbatim>\<open>if not os.path.exists(migrations_path)\<close>.\<close>

definition get_migrations_list_log :: "'sys registry \<Rightarrow> event list" where
  "get_migrations_list_log reg =
     (case discovered reg of
        No_package \<Rightarrow> []
      | No_directory p \<Rightarrow> [Logger L_warn ''migrations_cant_reach_migration_file'' [([], p)]]
      | Listdir xs \<Rightarrow> [])"

text \<open>
  The state of one call of \<^verbatim>\<open>tools_migrations_run\<close>. The migrations are objects that the
  loop changes (\<^verbatim>\<open>migration.state = "done"\<close>) and that \<^verbatim>\<open>targets\<close> and \<^verbatim>\<open>all_migrations\<close> share:
  \<open>all_migrations\<close> is the store of these objects, and a reference to one of them is its
  index there. \<open>accept_disclaimer\<close> is the local variable of that name.
\<close>

record 'sys engine =
  all_migrations :: "'sys migration list"
  accept_disclaimer :: bool
  migrations_yaml :: state_file
  sys :: 'sys
  events :: "event list"

definition log_event :: "event \<Rightarrow> 'sys engine \<Rightarrow> 'sys engine" where
  "log_event ev en = en\<lparr>events := events en @ [ev]\<rparr>"

fun first_index :: "('a \<Rightarrow> bool) \<Rightarrow> 'a list \<Rightarrow> nat option" where
  "first_index P [] = None"
| "first_index P (x # xs) = (if P x then Some 0 else map_option Suc (first_index P xs))"

text \<open>The test of \<^verbatim>\<open>get_matching_migration\<close>.\<close>

definition matches :: "string \<Rightarrow> 'sys migration \<Rightarrow> bool" where
  "matches target m = (mig_id m = target \<or> name m = target \<or> split_head (mig_id m) = target)"

definition get_matching_migration :: "'sys migration list \<Rightarrow> string \<Rightarrow> exn + nat" where
  "get_matching_migration ms target =
     (case first_index (matches target) ms of
        Some i \<Rightarrow> Inr i
      | None \<Rightarrow> Inl (YunohostValidationError ''migrations_no_such_migration'' [(''id'', target)]))"

text \<open>\<^verbatim>\<open>[get_matching_migration(t) for t in targets]\<close>: the first target that matches nothing
  raises.\<close>

fun resolve_all :: "'sys migration list \<Rightarrow> string list \<Rightarrow> exn + nat list" where
  "resolve_all ms [] = Inr []"
| "resolve_all ms (t # ts) =
     (case get_matching_migration ms t of
        Inl e \<Rightarrow> Inl e
      | Inr i \<Rightarrow> (case resolve_all ms ts of Inl e \<Rightarrow> Inl e | Inr js \<Rightarrow> Inr (i # js)))"

text \<open>The ids of the dependencies of \<open>m\<close> that are pending, or the error of the lookup.\<close>

definition pending_dependencies :: "'sys migration list \<Rightarrow> 'sys migration \<Rightarrow> exn + string list" where
  "pending_dependencies ms m =
     (case resolve_all ms (dependencies m) of
        Inl e \<Rightarrow> Inl e
      | Inr deps \<Rightarrow> Inr (map (\<lambda>d. mig_id (ms ! d)) (filter (\<lambda>d. state (ms ! d) = ''pending'') deps)))"

text \<open>The truth value of \<^verbatim>\<open>migration.disclaimer\<close>: neither \<^verbatim>\<open>None\<close> nor the empty string.\<close>

definition has_disclaimer :: "'sys migration \<Rightarrow> bool" where
  "has_disclaimer m = (case disclaimer m of None \<Rightarrow> False | Some d \<Rightarrow> d \<noteq> [])"

definition disclaimer_text :: "'sys migration \<Rightarrow> string" where
  "disclaimer_text m = (case disclaimer m of None \<Rightarrow> [] | Some d \<Rightarrow> d)"

definition set_state :: "nat \<Rightarrow> string \<Rightarrow> 'sys engine \<Rightarrow> 'sys engine" where
  "set_state t st en =
     en\<lparr>all_migrations := (all_migrations en)[t := (all_migrations en ! t)\<lparr>state := st\<rparr>],
        migrations_yaml := write_migration_state (mig_id (all_migrations en ! t)) st (migrations_yaml en)\<rparr>"

text \<open>The branch \<^verbatim>\<open>if skip: ...\<close> of the loop body, after \<^verbatim>\<open>operation_logger.start()\<close>.\<close>

definition skip_migration :: "nat \<Rightarrow> 'sys engine \<Rightarrow> 'sys engine" where
  "skip_migration t en =
     (let migration = all_migrations en ! t;
          en1 = log_event (Logger L_warn ''migrations_skip_migration'' [(''id'', mig_id migration)]) en;
          en2 = set_state t ''skipped'' en1
      in log_event Operation_success en2)"

text \<open>The branch \<^verbatim>\<open>else: try: ... migration.run() except Exception as e: ... else: ...\<close>.\<close>

definition run_migration :: "nat \<Rightarrow> 'sys engine \<Rightarrow> 'sys engine" where
  "run_migration t en =
     (let migration = all_migrations en ! t;
          en1 = log_event (Logger L_info ''migrations_running_forward'' [(''id'', mig_id migration)]) en;
          en2 = log_event (Run (mig_id migration)) en1
      in case run migration (sys en2) of
           (Some e, s) \<Rightarrow>
             (let msg = [(''exception'', py_str e), (''id'', mig_id migration)];
                  en3 = log_event (Logger L_error ''migrations_migration_has_failed'' msg) (en2\<lparr>sys := s\<rparr>)
              in log_event (Operation_error ''migrations_migration_has_failed'' msg) en3)
         | (None, s) \<Rightarrow>
             (let en3 = log_event (Logger L_success ''migrations_success_forward'' [(''id'', mig_id migration)])
                          (en2\<lparr>sys := s\<rparr>);
                  en4 = set_state t ''done'' en3
              in log_event Operation_success en4))"

text \<open>
  One turn of the loop \<^verbatim>\<open>for migration in targets\<close>, for the migration at index \<open>t\<close>. The
  result is \<open>Some e\<close> when \<open>e\<close> leaves the loop: only \<^verbatim>\<open>get_matching_migration(dep)\<close> is
  outside every \<^verbatim>\<open>try\<close>.
\<close>

definition migrate_one :: "bool \<Rightarrow> bool \<Rightarrow> nat \<Rightarrow> 'sys engine \<Rightarrow> exn option \<times> 'sys engine" where
  "migrate_one skip auto t en =
     (let migration = all_migrations en ! t in
      if auto \<and> mode migration = ''manual''
      then (None, log_event (Logger L_warn ''migrations_to_be_ran_manually'' [(''id'', mig_id migration)]) en)
      else
        (case (if \<not> skip then pending_dependencies (all_migrations en) migration else Inr []) of
           Inl e \<Rightarrow> (Some e, en)
         | Inr (p # ps) \<Rightarrow>
             (None, log_event (Logger L_error ''migrations_dependencies_not_satisfied''
                       [(''id'', mig_id migration), (''dependencies_id'', join '', '' (p # ps))]) en)
         | Inr [] \<Rightarrow>
             if has_disclaimer migration \<and> \<not> skip \<and> \<not> accept_disclaimer en
             then (None, log_event (Logger L_warn ''migrations_need_to_accept_disclaimer''
                       [(''id'', mig_id migration), (''disclaimer'', disclaimer_text migration)]) en)
             else
               (let en1 = (if has_disclaimer migration \<and> \<not> skip
                           then en\<lparr>accept_disclaimer := False\<rparr> else en);
                    en2 = log_event (Operation_start ''tools_migrations_migrate_forward'') en1
                in if skip then (None, skip_migration t en2) else (None, run_migration t en2))))"

fun migrate_loop :: "bool \<Rightarrow> bool \<Rightarrow> nat list \<Rightarrow> 'sys engine \<Rightarrow> exn option \<times> 'sys engine" where
  "migrate_loop skip auto [] en = (None, en)"
| "migrate_loop skip auto (t # ts) en =
     (case migrate_one skip auto t en of
        (Some e, en') \<Rightarrow> (Some e, en')
      | (None, en') \<Rightarrow> migrate_loop skip auto ts en')"

text \<open>What outlives a call: the state file, the machine and the log.\<close>

record 'sys world =
  w_yaml :: state_file
  w_sys :: 'sys
  w_events :: "event list"

definition start_engine :: "'sys migration list \<Rightarrow> bool \<Rightarrow> 'sys world \<Rightarrow> 'sys engine" where
  "start_engine ms acc w =
     \<lparr> all_migrations = ms, accept_disclaimer = acc, migrations_yaml = w_yaml w,
       sys = w_sys w, events = w_events w \<rparr>"

definition world_of :: "'sys engine \<Rightarrow> 'sys world" where
  "world_of en = \<lparr> w_yaml = migrations_yaml en, w_sys = sys en, w_events = events en \<rparr>"

text \<open>From \<^verbatim>\<open>So, is there actually something to do ?\<close> to the end of \<^verbatim>\<open>tools_migrations_run\<close>.\<close>

definition run_targets ::
  "bool \<Rightarrow> bool \<Rightarrow> bool \<Rightarrow> 'sys migration list \<Rightarrow> nat list \<Rightarrow> 'sys world \<Rightarrow> exn option \<times> 'sys world" where
  "run_targets skip auto acc ms ts w =
     (if ts = []
      then (None, w\<lparr>w_events := w_events w @ [Logger L_info ''migrations_no_migrations_to_run'' []]\<rparr>)
      else (case migrate_loop skip auto ts (start_engine ms acc w) of (r, en) \<Rightarrow> (r, world_of en)))"

definition ids_where :: "(string \<Rightarrow> bool) \<Rightarrow> 'sys migration list \<Rightarrow> nat list \<Rightarrow> string list" where
  "ids_where P ms ts = map (\<lambda>t. mig_id (ms ! t)) (filter (\<lambda>t. P (state (ms ! t))) ts)"

text \<open>\<^verbatim>\<open>tools_migrations_run\<close>; \<open>w0\<close> is the machine at the call, \<open>w\<close> the machine after
  \<^verbatim>\<open>_get_migrations_list()\<close>.\<close>

definition tools_migrations_run ::
  "'sys registry \<Rightarrow> string list \<Rightarrow> bool \<Rightarrow> bool \<Rightarrow> bool \<Rightarrow> bool \<Rightarrow> 'sys world \<Rightarrow> exn option \<times> 'sys world" where
  "tools_migrations_run reg targets skip auto force_rerun acc w0 =
     (let w = w0\<lparr>w_events := w_events w0 @ get_migrations_list_log reg\<rparr> in
      case get_migrations_list reg (w_yaml w0) of
        Inl e \<Rightarrow> (Some e, w)
      | Inr ms \<Rightarrow>
         if (of_bool auto + of_bool skip + of_bool force_rerun :: nat) > 1
         then (Some (YunohostValidationError ''migrations_exclusive_options'' []), w)
         else if targets = []
         then
           (if skip \<or> force_rerun
            then (Some (YunohostValidationError ''migrations_must_provide_explicit_targets'' []), w)
            else run_targets skip auto acc ms
                   (filter (\<lambda>i. state (ms ! i) = ''pending'') [0..<length ms]) w)
         else
           (case resolve_all ms targets of
              Inl e \<Rightarrow> (Some e, w)
            | Inr ts \<Rightarrow>
               (let done = ids_where (\<lambda>s. s \<noteq> ''pending'') ms ts;
                    pending = ids_where (\<lambda>s. s = ''pending'') ms ts
                in if skip \<and> done \<noteq> []
                   then (Some (YunohostValidationError ''migrations_not_pending_cant_skip''
                                 [(''ids'', join '', '' done)]), w)
                   else if force_rerun \<and> pending \<noteq> []
                   then (Some (YunohostValidationError ''migrations_pending_cant_rerun''
                                 [(''ids'', join '', '' pending)]), w)
                   else if \<not> (skip \<or> force_rerun) \<and> done \<noteq> []
                   then (Some (YunohostValidationError ''migrations_already_ran''
                                 [(''ids'', join '', '' done)]), w)
                   else run_targets skip auto acc ms ts w)))"

subsection \<open>Predicates on runs\<close>

text \<open>The calls of the logger among the events.\<close>

fun is_logger :: "event \<Rightarrow> bool" where
  "is_logger (Logger l k a) = True"
| "is_logger ev = False"

text \<open>The migration at index \<open>t\<close> passes the first two tests of the loop, when \<^verbatim>\<open>skip\<close> is not
  set: it is not a manual migration in automatic mode, and its dependencies are all found and
  none of them is pending.\<close>

definition reaches_disclaimer_test :: "bool \<Rightarrow> 'sys migration list \<Rightarrow> nat \<Rightarrow> bool" where
  "reaches_disclaimer_test auto ms t =
     (\<not> (auto \<and> mode (ms ! t) = ''manual'') \<and> pending_dependencies ms (ms ! t) = Inr [])"

text \<open>The migration at index \<open>t\<close> is stopped by one of the first two tests of the loop, when
  \<^verbatim>\<open>skip\<close> is not set: it is a manual migration in automatic mode, or its dependencies are all
  found and one of them is pending. The loop then logs and goes to the next target.\<close>

definition stopped_before_disclaimer_test :: "bool \<Rightarrow> 'sys migration list \<Rightarrow> nat \<Rightarrow> bool" where
  "stopped_before_disclaimer_test auto ms t =
     ((auto \<and> mode (ms ! t) = ''manual'') \<or>
      (case pending_dependencies ms (ms ! t) of Inl e \<Rightarrow> False | Inr ps \<Rightarrow> ps \<noteq> []))"

text \<open>The entries of the state file \<open>f'\<close> are those of \<open>f\<close>, but for entries that are now
  \<^verbatim>\<open>done\<close> or \<^verbatim>\<open>skipped\<close>.\<close>

definition yaml_kept :: "state_file \<Rightarrow> state_file \<Rightarrow> bool" where
  "yaml_kept f f' =
     (\<forall>k. tools_migrations_state f' k = tools_migrations_state f k \<or>
          tools_migrations_state f' k = Some ''done'' \<or>
          tools_migrations_state f' k = Some ''skipped'')"

subsection \<open>The decorator \<^verbatim>\<open>ldap_migration\<close>\<close>

text \<open>
  A path is the list of its components: \<^verbatim>\<open>/etc/ldap\<close> is \<open>[''etc'', ''ldap'']\<close>. The commands
  that the decorator gives to \<^verbatim>\<open>os.system\<close>:
  \<^item> \<open>Systemctl_stop s\<close>, \<open>Systemctl_start s\<close>: \<^verbatim>\<open>systemctl stop s\<close>, \<^verbatim>\<open>systemctl start s\<close>;
  \<^item> \<open>Cp_r src dst\<close>: \<^verbatim>\<open>cp -r --preserve src dst\<close>;
  \<^item> \<open>Cp_r_contents src dst\<close>: \<^verbatim>\<open>cp -r --preserve src/. dst/\<close>;
  \<^item> \<open>Rm_r p\<close>: \<^verbatim>\<open>rm -r p\<close>.
\<close>

type_synonym path = "string list"

datatype cmd =
    Systemctl_stop string
  | Systemctl_start string
  | Cp_r path path
  | Cp_r_contents path path
  | Rm_r path

text \<open>What the decorator does, in order: its calls of the logger, of \<^verbatim>\<open>os.makedirs\<close>, of
  \<^verbatim>\<open>os.system\<close> and of the wrapped \<^verbatim>\<open>run(self, backup_folder)\<close>.\<close>

datatype action =
    Log level string
  | Makedirs path
  | System cmd
  | Call_run path

text \<open>
  The operating system under the decorator, over any state \<open>'w\<close> of the machine:
  \<^verbatim>\<open>os.makedirs\<close> may raise; \<^verbatim>\<open>os.system\<close> returns the exit status of the command, which the
  decorator never reads, and does not raise when the command fails.
\<close>

record 'w shell =
  makedirs :: "path \<Rightarrow> 'w \<Rightarrow> exn option \<times> 'w"
  system :: "cmd \<Rightarrow> 'w \<Rightarrow> 'w"

record 'w traced =
  trace :: "action list"
  os :: 'w

definition os_system :: "'w shell \<Rightarrow> cmd \<Rightarrow> 'w traced \<Rightarrow> 'w traced" where
  "os_system sh c st = \<lparr> trace = trace st @ [System c], os = system sh c (os st) \<rparr>"

definition logged :: "level \<Rightarrow> string \<Rightarrow> 'w traced \<Rightarrow> 'w traced" where
  "logged l k st = st\<lparr>trace := trace st @ [Log l k]\<rparr>"

text \<open>\<^verbatim>\<open>"/home/yunohost.backup/premigration/" + time.strftime("%Y%m%d-%H%M%S", time.gmtime())\<close>,
  where \<open>now\<close> is the text that \<^verbatim>\<open>strftime\<close> returns.\<close>

definition backup_folder_at :: "string \<Rightarrow> path" where
  "backup_folder_at now = [''home'', ''yunohost.backup'', ''premigration'', now]"

definition etc_ldap :: path where "etc_ldap = [''etc'', ''ldap'']"
definition var_lib_ldap :: path where "var_lib_ldap = [''var'', ''lib'', ''ldap'']"
definition etc_yunohost_apps :: path where "etc_yunohost_apps = [''etc'', ''yunohost'', ''apps'']"

text \<open>The first \<^verbatim>\<open>try: ... except Exception as e: ... finally: ...\<close> of \<^verbatim>\<open>func\<close>.\<close>

definition ldap_backup :: "'w shell \<Rightarrow> string \<Rightarrow> 'w traced \<Rightarrow> exn option \<times> 'w traced" where
  "ldap_backup sh now st =
     (let backup_folder = backup_folder_at now;
          st1 = logged L_info ''migration_ldap_backup_before_migration'' st;
          st2 = st1\<lparr>trace := trace st1 @ [Makedirs backup_folder]\<rparr>
      in case makedirs sh backup_folder (os st2) of
           (Some e, w) \<Rightarrow>
             (Some (YunohostError ''migration_ldap_can_not_backup_before_migration''
                      [(''error'', py_str e)]),
              os_system sh (Systemctl_start ''slapd'') (st2\<lparr>os := w\<rparr>))
         | (None, w) \<Rightarrow>
             (None,
              fold (os_system sh)
                [Systemctl_stop ''slapd'',
                 Cp_r etc_ldap (backup_folder @ [''ldap_config'']),
                 Cp_r var_lib_ldap (backup_folder @ [''ldap_db'']),
                 Cp_r etc_yunohost_apps (backup_folder @ [''apps_settings'']),
                 Systemctl_start ''slapd'']
                (st2\<lparr>os := w\<rparr>)))"

text \<open>The handler \<^verbatim>\<open>except Exception: ...\<close> of the second \<^verbatim>\<open>try\<close>, up to its \<^verbatim>\<open>raise\<close>.\<close>

definition ldap_rollback :: "'w shell \<Rightarrow> path \<Rightarrow> 'w traced \<Rightarrow> 'w traced" where
  "ldap_rollback sh backup_folder st =
     (let st1 = logged L_warn ''migration_ldap_migration_failed_trying_to_rollback'' st;
          st2 = fold (os_system sh)
                  [Systemctl_stop ''slapd'',
                   Rm_r (etc_ldap @ [''slapd.d'']),
                   Cp_r_contents (backup_folder @ [''ldap_config'']) etc_ldap,
                   Cp_r_contents (backup_folder @ [''ldap_db'']) var_lib_ldap,
                   Cp_r_contents (backup_folder @ [''apps_settings'']) etc_yunohost_apps,
                   Systemctl_start ''slapd'',
                   Rm_r backup_folder]
                  st1
      in logged L_info ''migration_ldap_rollback_success'' st2)"

text \<open>
  \<^verbatim>\<open>ldap_migration(run)\<close>, the function \<^verbatim>\<open>func\<close>: \<open>body\<close> is the wrapped \<^verbatim>\<open>run\<close>, which gets the
  backup folder and acts on the machine.
\<close>

definition ldap_migration ::
  "'w shell \<Rightarrow> string \<Rightarrow> (path \<Rightarrow> 'w \<Rightarrow> exn option \<times> 'w) \<Rightarrow> 'w traced \<Rightarrow> exn option \<times> 'w traced" where
  "ldap_migration sh now body st =
     (case ldap_backup sh now st of
        (Some e, st1) \<Rightarrow> (Some e, st1)
      | (None, st1) \<Rightarrow>
         (let backup_folder = backup_folder_at now;
              st2 = st1\<lparr>trace := trace st1 @ [Call_run backup_folder]\<rparr>
          in case body backup_folder (os st2) of
               (Some e, w) \<Rightarrow> (Some e, ldap_rollback sh backup_folder (st2\<lparr>os := w\<rparr>))
             | (None, w) \<Rightarrow> (None, os_system sh (Rm_r backup_folder) (st2\<lparr>os := w\<rparr>))))"

text \<open>Whether \<^verbatim>\<open>slapd\<close> is up after a sequence of actions, when it was \<open>b\<close> before: the last
  \<^verbatim>\<open>systemctl\<close> command on it decides.\<close>

fun slapd_after :: "bool \<Rightarrow> action list \<Rightarrow> bool" where
  "slapd_after b [] = b"
| "slapd_after b (System (Systemctl_stop s) # as) = slapd_after (if s = ''slapd'' then False else b) as"
| "slapd_after b (System (Systemctl_start s) # as) = slapd_after (if s = ''slapd'' then True else b) as"
| "slapd_after b (_ # as) = slapd_after b as"

subsection \<open>Files under the decorator\<close>

text \<open>
  The files of the machine: the bytes of each regular file, by its path. In this view
  \<^item> \<^verbatim>\<open>rm -r d\<close> removes every file at or below \<open>d\<close>;
  \<^item> \<^verbatim>\<open>cp -r --preserve src/. dst/\<close> writes every file below \<open>src\<close> to the same place below
    \<open>dst\<close> and leaves the other files of \<open>dst\<close> as they are; \<^verbatim>\<open>cp -r --preserve src dst\<close> does
    the same when \<open>dst\<close> does not exist yet, which is so in the decorator (\<open>dst\<close> lies in the
    folder that \<^verbatim>\<open>os.makedirs\<close> has just created);
  \<^item> \<^verbatim>\<open>systemctl\<close> changes no file.
  Every command is taken to succeed.
\<close>

type_synonym files = "path \<Rightarrow> string option"

definition rm_r :: "path \<Rightarrow> files \<Rightarrow> files" where
  "rm_r d f = (\<lambda>p. if prefix d p then None else f p)"

definition cp_r :: "path \<Rightarrow> path \<Rightarrow> files \<Rightarrow> files" where
  "cp_r src dst f =
     (\<lambda>p. if prefix dst p
          then (case f (src @ drop (length dst) p) of Some c \<Rightarrow> Some c | None \<Rightarrow> f p)
          else f p)"

fun files_system :: "cmd \<Rightarrow> files \<Rightarrow> files" where
  "files_system (Systemctl_stop s) f = f"
| "files_system (Systemctl_start s) f = f"
| "files_system (Cp_r src dst) f = cp_r src dst f"
| "files_system (Cp_r_contents src dst) f = cp_r src dst f"
| "files_system (Rm_r d) f = rm_r d f"

text \<open>\<open>mk\<close> is what \<^verbatim>\<open>os.makedirs\<close> raises, if it does; the new folder holds no file.\<close>

definition files_shell :: "exn option \<Rightarrow> files shell" where
  "files_shell mk = \<lparr> makedirs = (\<lambda>p f. (mk, f)), system = files_system \<rparr>"

text \<open>The three trees that the decorator copies.\<close>

definition watched :: "path \<Rightarrow> bool" where
  "watched p = (prefix etc_ldap p \<or> prefix var_lib_ldap p \<or> prefix etc_yunohost_apps p)"

subsection \<open>The service under the decorator\<close>

text \<open>
  A machine with the service \<^verbatim>\<open>slapd\<close> and the files: \<^verbatim>\<open>systemctl stop slapd\<close> brings the service
  down and \<^verbatim>\<open>systemctl start slapd\<close> brings it up (the commands are taken to succeed), and the
  other commands act on the files only.
\<close>

record machine =
  slapd_up :: bool
  disk :: files

fun machine_system :: "cmd \<Rightarrow> machine \<Rightarrow> machine" where
  "machine_system (Systemctl_stop s) m = (if s = ''slapd'' then m\<lparr>slapd_up := False\<rparr> else m)"
| "machine_system (Systemctl_start s) m = (if s = ''slapd'' then m\<lparr>slapd_up := True\<rparr> else m)"
| "machine_system (Cp_r src dst) m = m\<lparr>disk := cp_r src dst (disk m)\<rparr>"
| "machine_system (Cp_r_contents src dst) m = m\<lparr>disk := cp_r src dst (disk m)\<rparr>"
| "machine_system (Rm_r d) m = m\<lparr>disk := rm_r d (disk m)\<rparr>"

definition machine_shell :: "exn option \<Rightarrow> machine shell" where
  "machine_shell mk = \<lparr> makedirs = (\<lambda>p m. (mk, m)), system = machine_system \<rparr>"

subsection \<open>Example machines\<close>

text \<open>Concrete registries, migrations and machines, on which the theorems below are evaluated.\<close>

text \<open>The entries of the table of decimal digits that the examples read: U+0663, ARABIC-INDIC
  DIGIT THREE, is the bytes D9 A3 and has the value 3.\<close>

definition ex_decimals :: decimals where
  "ex_decimals ch = (if ch = [CHR 0xD9, CHR 0xA3] then Some 3 else None)"

definition ok_migration :: "string \<Rightarrow> string list \<Rightarrow> string option \<Rightarrow> string list descriptor" where
  "ok_migration tag deps disc =
     \<lparr> d_mode = ''auto'', d_dependencies = deps, d_disclaimer = disc,
       d_run = (\<lambda>s. (None, s @ [tag])) \<rparr>"

definition ex_unpadded :: "string list registry" where
  "ex_unpadded = \<lparr> discovered = Listdir [''2_b.py'', ''10_a.py''],
                   modules = (\<lambda>i. Some (ok_migration i [] None)),
                   unicode_decimal = ex_decimals \<rparr>"

definition ex_padded :: "string list registry" where
  "ex_padded = \<lparr> discovered = Listdir [''0010_a.py'', ''0002_b.py''],
                   modules = (\<lambda>i. Some (ok_migration i [] None)),
                   unicode_decimal = ex_decimals \<rparr>"

definition ex_twins :: "string list registry" where
  "ex_twins = \<lparr> discovered = Listdir [''0001_foo.py'', ''0002_foo.py''],
                 modules = (\<lambda>i. Some (ok_migration i [] None)),
                   unicode_decimal = ex_decimals \<rparr>"

definition ex_three :: "string list registry" where
  "ex_three = \<lparr> discovered = Listdir [''0003_c.py'', ''0001_a.py'', ''0002_b.py''],
                 modules = (\<lambda>i. Some (ok_migration i [] None)),
                   unicode_decimal = ex_decimals \<rparr>"

definition ex_yaml :: state_file where
  "ex_yaml = Some [''0001_a'' \<mapsto> ''done'', ''0002_b'' \<mapsto> ''skipped'']"

definition failing_migration :: "string \<Rightarrow> string list descriptor" where
  "failing_migration tag =
     \<lparr> d_mode = ''auto'', d_dependencies = [], d_disclaimer = None,
       d_run = (\<lambda>s. (Some (Exception ''boom''), s @ [tag])) \<rparr>"

definition ex_failing :: "string list registry" where
  "ex_failing = \<lparr> discovered = Listdir [''0001_a.py'', ''0002_b.py''],
                   modules = (\<lambda>i. if i = ''0001_a'' then Some (failing_migration i)
                                    else Some (ok_migration i [] None)),
                   unicode_decimal = ex_decimals \<rparr>"

definition ex_world :: "state_file \<Rightarrow> string list world" where
  "ex_world f = \<lparr> w_yaml = f, w_sys = [], w_events = [] \<rparr>"

definition ex_failing_engine :: "string list engine" where
  "ex_failing_engine = start_engine (projr (get_migrations_list ex_failing None)) False (ex_world None)"


definition ex_files :: files where
  "ex_files =
     [[''etc'', ''ldap'', ''ldap.conf''] \<mapsto> ''BASE dc=yunohost'',
      [''etc'', ''ldap'', ''slapd.d'', ''cn=config.ldif''] \<mapsto> ''old config'',
      [''var'', ''lib'', ''ldap'', ''data.mdb''] \<mapsto> ''old data'']"

text \<open>A wrapped body that rewrites two files, creates a third and raises.\<close>

definition ex_body :: "path \<Rightarrow> files \<Rightarrow> exn option \<times> files" where
  "ex_body backup_folder f =
     (Some (Exception ''boom''),
      f([''etc'', ''ldap'', ''slapd.d'', ''cn=config.ldif''] \<mapsto> ''new config'',
        [''var'', ''lib'', ''ldap'', ''data.mdb''] \<mapsto> ''new data'',
        [''var'', ''lib'', ''ldap'', ''lock.mdb''] \<mapsto> ''left behind''))"

definition ex_machine :: "files traced" where
  "ex_machine = \<lparr> trace = [], os = ex_files \<rparr>"

text \<open>The files \<^verbatim>\<open>4_b.py\<close> and \<^verbatim>\<open>U+0663_a.py\<close>, whose numeric prefix is one digit each.\<close>

definition ex_unicode :: "string list registry" where
  "ex_unicode = \<lparr> discovered = Listdir [[CHR 0xD9, CHR 0xA3] @ ''_a.py'', ''4_b.py''],
                   modules = (\<lambda>i. Some (ok_migration i [] None)),
                   unicode_decimal = ex_decimals \<rparr>"

text \<open>Four migrations: \<^verbatim>\<open>0001_a\<close>, \<^verbatim>\<open>0002_b\<close> and \<^verbatim>\<open>0004_d\<close> carry a disclaimer, and \<^verbatim>\<open>0001_a\<close>
  depends on \<^verbatim>\<open>0003_c\<close>.\<close>

definition ex_blocked :: "string list registry" where
  "ex_blocked =
     \<lparr> discovered = Listdir [''0001_a.py'', ''0002_b.py'', ''0003_c.py'', ''0004_d.py''],
       modules = (\<lambda>i. if i = ''0001_a'' then Some (ok_migration i [''0003_c''] (Some ''read this first''))
                        else if i = ''0003_c'' then Some (ok_migration i [] None)
                        else Some (ok_migration i [] (Some ''read this first''))),
       unicode_decimal = ex_decimals \<rparr>"

definition ex_blocked_engine :: "string list engine" where
  "ex_blocked_engine =
     start_engine (projr (get_migrations_list ex_blocked None)) True (ex_world None)"

text \<open>A registry whose directory of migrations is missing.\<close>

definition ex_no_directory :: "string list registry" where
  "ex_no_directory =
     \<lparr> discovered = No_directory ''/usr/lib/moulinette/yunohost/data_migrations'',
       modules = (\<lambda>i. None), unicode_decimal = ex_decimals \<rparr>"

text \<open>Wrapped bodies that stop the service; the first returns, the second raises.\<close>

definition ex_stopping_body :: "path \<Rightarrow> machine \<Rightarrow> exn option \<times> machine" where
  "ex_stopping_body backup_folder m = (None, machine_system (Systemctl_stop ''slapd'') m)"

definition ex_stop_and_raise :: "path \<Rightarrow> machine \<Rightarrow> exn option \<times> machine" where
  "ex_stop_and_raise backup_folder m =
     (Some (Exception ''boom''), machine_system (Systemctl_stop ''slapd'') m)"

definition ex_service_machine :: "machine traced" where
  "ex_service_machine = \<lparr> trace = [], os = \<lparr> slapd_up = True, disk = ex_files \<rparr> \<rparr>"

section \<open>Properties\<close>

subsection \<open>The listing is sorted by id\<close>

lemmas listing_defs = get_migrations_list_def migration_file_re_def chomp_def is_digit_def
  is_word_def is_alpha_def load_migration_def Migration_init_def py_int_def split_head_def
  split_rest_def digit_val_def tools_migrations_state_def Let_def utf8_width_def decimal_of_def
  ex_decimals_def

lemma digit_val_bounds: "is_digit c \<Longrightarrow> 0 \<le> digit_val c \<and> digit_val c \<le> 9"
  by (simp add: is_digit_def digit_val_def less_eq_char_def)

lemma digit_val_mono: "c < d \<Longrightarrow> digit_val c < digit_val d"
  by (simp add: digit_val_def less_char_def)

lemma foldl_digits_acc:
  "foldl (\<lambda>a c. 10 * a + digit_val c) a s = a * 10 ^ length s + foldl (\<lambda>a c. 10 * a + digit_val c) 0 s"
proof (induction s arbitrary: a)
  case Nil
  then show ?case by simp
next
  case (Cons c s)
  have "foldl (\<lambda>a c. 10 * a + digit_val c) (10 * a + digit_val c) s
          = (10 * a + digit_val c) * 10 ^ length s + foldl (\<lambda>a c. 10 * a + digit_val c) 0 s"
    by (rule Cons.IH)
  moreover have "foldl (\<lambda>a c. 10 * a + digit_val c) (digit_val c) s
          = digit_val c * 10 ^ length s + foldl (\<lambda>a c. 10 * a + digit_val c) 0 s"
    by (rule Cons.IH)
  ultimately show ?case
    by (simp add: algebra_simps)
qed

lemma foldl_digits_bounds:
  "list_all is_digit s \<Longrightarrow>
   0 \<le> foldl (\<lambda>a c. 10 * a + digit_val c) 0 s \<and> foldl (\<lambda>a c. 10 * a + digit_val c) 0 s < 10 ^ length s"
proof (induction s rule: rev_induct)
  case Nil
  then show ?case by simp
next
  case (snoc c s)
  then have "0 \<le> digit_val c \<and> digit_val c \<le> 9"
    by (simp add: digit_val_bounds)
  with snoc show ?case by simp
qed

lemma lex_le_digits:
  assumes "length a = length b" "list_all is_digit a" "list_all is_digit b" "a \<le> b"
  shows "foldl (\<lambda>a c. 10 * a + digit_val c) 0 a \<le> foldl (\<lambda>a c. 10 * a + digit_val c) 0 b"
  using assms
proof (induction a b rule: list_induct2)
  case Nil
  then show ?case by simp
next
  case (Cons x xs y ys)
  let ?v = "foldl (\<lambda>a c. 10 * a + digit_val c) 0"
  have bx: "0 \<le> ?v xs \<and> ?v xs < 10 ^ length xs" using Cons.prems by (simp add: foldl_digits_bounds)
  have by': "0 \<le> ?v ys \<and> ?v ys < 10 ^ length ys" using Cons.prems by (simp add: foldl_digits_bounds)
  have ex: "?v (x # xs) = digit_val x * 10 ^ length xs + ?v xs"
    using foldl_digits_acc [of "digit_val x" xs] by simp
  have ey: "?v (y # ys) = digit_val y * 10 ^ length xs + ?v ys"
    using foldl_digits_acc [of "digit_val y" ys] Cons.hyps by simp
  from Cons.prems(3) consider "x < y" | "x = y" "xs \<le> ys" by auto
  then show ?case
  proof cases
    case 1
    then have "digit_val x + 1 \<le> digit_val y" using digit_val_mono by fastforce
    then have "(digit_val x + 1) * 10 ^ length xs \<le> digit_val y * 10 ^ length xs"
      by (simp add: mult_right_mono)
    then show ?thesis using bx by' ex ey by (simp add: algebra_simps)
  next
    case 2
    then have "?v xs \<le> ?v ys" using Cons by simp
    then show ?thesis using ex ey 2 by simp
  qed
qed

lemma lex_le_takes:
  "length p = length q \<Longrightarrow> p @ r \<le> q @ s \<Longrightarrow> p \<le> (q :: 'a :: linorder list)"
  by (induction p q rule: list_induct2) auto

lemma utf8_width_digit: "is_digit c \<Longrightarrow> utf8_width c = 1"
  by (simp add: is_digit_def utf8_width_def less_eq_char_def Let_def)

lemma scan_decimals_ascii:
  "list_all is_digit s \<Longrightarrow> scan_decimals tbl s = (map digit_val s, [])"
  by (induction s) (simp_all add: utf8_width_digit decimal_of_def)

lemma py_int_ascii:
  "s \<noteq> [] \<Longrightarrow> list_all is_digit s \<Longrightarrow>
   py_int tbl s = Some (foldl (\<lambda>a c. 10 * a + digit_val c) 0 s)"
  by (simp add: py_int_def scan_decimals_ascii foldl_map)

lemma py_int_nonempty: "py_int tbl s = Some n \<Longrightarrow> s \<noteq> []"
  by (auto simp: py_int_def)

lemma py_int_lex_mono:
  assumes "py_int tbl (split_head a) = Some m" "py_int tbl (split_head b) = Some n"
    "list_all is_digit (split_head a)" "list_all is_digit (split_head b)"
    "length (split_head a) = length (split_head b)" "a \<le> b"
  shows "m \<le> n"
proof -
  have "split_head a @ dropWhile (\<lambda>c. c \<noteq> CHR ''_'') a \<le> split_head b @ dropWhile (\<lambda>c. c \<noteq> CHR ''_'') b"
    using assms(6) by (simp add: split_head_def)
  then have "split_head a \<le> split_head b"
    using assms(5) lex_le_takes by blast
  then have "foldl (\<lambda>a c. 10 * a + digit_val c) 0 (split_head a)
               \<le> foldl (\<lambda>a c. 10 * a + digit_val c) 0 (split_head b)"
    using assms(3,4,5) by (simp add: lex_le_digits)
  moreover have "m = foldl (\<lambda>a c. 10 * a + digit_val c) 0 (split_head a)"
    using assms(1,3) py_int_ascii [of "split_head a" tbl] py_int_nonempty [OF assms(1)] by simp
  moreover have "n = foldl (\<lambda>a c. 10 * a + digit_val c) 0 (split_head b)"
    using assms(2,4) py_int_ascii [of "split_head b" tbl] py_int_nonempty [OF assms(2)] by simp
  ultimately show ?thesis by simp
qed

lemma load_migration_number:
  "load_migration reg x = Inr m \<Longrightarrow>
   py_int (unicode_decimal reg) (split_head (mig_id m)) = Some (number m)"
  by (auto simp: load_migration_def Migration_init_def Let_def split: option.splits)

lemma load_all_number:
  "load_all reg sts xs = Inr ms \<Longrightarrow> m \<in> set ms \<Longrightarrow>
   py_int (unicode_decimal reg) (split_head (mig_id m)) = Some (number m)"
proof (induction xs arbitrary: ms)
  case Nil
  then show ?case by simp
next
  case (Cons x xs)
  from Cons.prems(1) obtain m0 ms0 where
    l: "load_migration reg x = Inr m0" and r: "load_all reg sts xs = Inr ms0"
    and e: "ms = m0\<lparr>state := (case sts (mig_id m0) of None \<Rightarrow> ''pending'' | Some s \<Rightarrow> s)\<rparr> # ms0"
    by (auto split: sum.splits)
  show ?case
  proof (cases "m \<in> set ms0")
    case True
    then show ?thesis using Cons.IH r by blast
  next
    case False
    then have "m = m0\<lparr>state := (case sts (mig_id m0) of None \<Rightarrow> ''pending'' | Some s \<Rightarrow> s)\<rparr>"
      using Cons.prems(2) e by simp
    then show ?thesis using load_migration_number [OF l] by simp
  qed
qed

lemma get_migrations_list_number:
  "get_migrations_list reg f = Inr ms \<Longrightarrow> m \<in> set ms \<Longrightarrow>
   py_int (unicode_decimal reg) (split_head (mig_id m)) = Some (number m)"
  by (auto simp: get_migrations_list_def split: discovery.splits sum.splits dest: load_all_number)

lemma get_migrations_list_sorted_ids:
  "get_migrations_list reg f = Inr ms \<Longrightarrow> sorted (map mig_id ms)"
  by (auto simp: get_migrations_list_def split: discovery.splits sum.splits)

text \<open>
  Claim C1, as amended. \<^verbatim>\<open>_get_migrations_list\<close> sorts on the key \<^verbatim>\<open>m.id\<close>: the listing is in
  ascending order of the ids, compared as strings. It is in ascending order of the ordinals
  \<^verbatim>\<open>number\<close> whenever the numeric prefixes of the listed ids are made of ASCII digits and all
  have the same number of digits.
\<close>

theorem listing_sorted_by_id:
  assumes "get_migrations_list reg f = Inr ms"
  shows "sorted (map mig_id ms) \<and>
         ((\<forall>m \<in> set ms. list_all is_digit (split_head (mig_id m))) \<and>
          (\<forall>m \<in> set ms. \<forall>m' \<in> set ms.
              length (split_head (mig_id m)) = length (split_head (mig_id m')))
          \<longrightarrow> sorted (map number ms))"
proof (intro conjI impI)
  show s: "sorted (map mig_id ms)"
    using assms by (rule get_migrations_list_sorted_ids)
  assume h: "(\<forall>m \<in> set ms. list_all is_digit (split_head (mig_id m))) \<and>
          (\<forall>m \<in> set ms. \<forall>m' \<in> set ms.
              length (split_head (mig_id m)) = length (split_head (mig_id m')))"
  have "sorted_wrt (\<lambda>a b. mig_id a \<le> mig_id b) ms"
    using s by (simp add: sorted_map)
  then have "sorted_wrt (\<lambda>a b. number a \<le> number b) ms"
  proof (rule sorted_wrt_mono_rel [rotated])
    fix a b assume ab: "a \<in> set ms" "b \<in> set ms" "mig_id a \<le> mig_id b"
    have "py_int (unicode_decimal reg) (split_head (mig_id a)) = Some (number a)"
      "py_int (unicode_decimal reg) (split_head (mig_id b)) = Some (number b)"
      using get_migrations_list_number [OF assms] ab(1,2) by blast+
    moreover have "list_all is_digit (split_head (mig_id a))"
      "list_all is_digit (split_head (mig_id b))"
      "length (split_head (mig_id a)) = length (split_head (mig_id b))"
      using h ab(1,2) by blast+
    ultimately show "number a \<le> number b"
      using ab(3) by (rule py_int_lex_mono)
  qed
  then show "sorted (map number ms)" by (simp add: sorted_map)
qed

text \<open>
  Claim C1, as stated, fails: the files \<^verbatim>\<open>2_b.py\<close> and \<^verbatim>\<open>10_a.py\<close> are listed with \<^verbatim>\<open>10_a\<close>
  first, the ordinal 10 before the ordinal 2.
\<close>

theorem listing_by_ordinal_counterexample:
  "map mig_id (projr (get_migrations_list ex_unpadded None)) = [''10_a'', ''2_b''] \<and>
   map number (projr (get_migrations_list ex_unpadded None)) = [10, 2] \<and>
   \<not> sorted (map number (projr (get_migrations_list ex_unpadded None)))"
  by (simp add: ex_unpadded_def ok_migration_def listing_defs)

text \<open>
  The numeric prefixes must be ASCII digits for the ordinals to follow the ids: the files
  \<^verbatim>\<open>4_b.py\<close> and \<^verbatim>\<open>U+0663_a.py\<close> (ARABIC-INDIC DIGIT THREE) are both kept by the pattern, the
  id \<^verbatim>\<open>4_b\<close> is listed first, and the ordinals are 4 and then 3.
\<close>

lemma listing_unicode_digits:
  "map mig_id (projr (get_migrations_list ex_unicode None))
     = [''4_b'', [CHR 0xD9, CHR 0xA3] @ ''_a''] \<and>
   map number (projr (get_migrations_list ex_unicode None)) = [4, 3] \<and>
   map (\<lambda>m. length (fst (scan_decimals (unicode_decimal ex_unicode) (split_head (mig_id m)))))
     (projr (get_migrations_list ex_unicode None)) = [1, 1]"
  by (simp add: ex_unicode_def ok_migration_def listing_defs)

text \<open>The amended claim C1 on the files \<^verbatim>\<open>0010_a.py\<close> and \<^verbatim>\<open>0002_b.py\<close>.\<close>

theorem listing_sorted_by_id_witness:
  "\<not> isl (get_migrations_list ex_padded None) \<and>
   map mig_id (projr (get_migrations_list ex_padded None)) = [''0002_b'', ''0010_a''] \<and>
   sorted (map mig_id (projr (get_migrations_list ex_padded None))) \<and>
   sorted (map number (projr (get_migrations_list ex_padded None)))"
proof -
  have e: "get_migrations_list ex_padded None = Inr (projr (get_migrations_list ex_padded None))"
    by (simp add: ex_padded_def ok_migration_def listing_defs)
  have i: "map mig_id (projr (get_migrations_list ex_padded None)) = [''0002_b'', ''0010_a'']"
    by (simp add: ex_padded_def ok_migration_def listing_defs)
  have d: "\<forall>m \<in> set (projr (get_migrations_list ex_padded None)).
             list_all is_digit (split_head (mig_id m))"
    by (simp add: ex_padded_def ok_migration_def listing_defs)
  have w: "\<forall>m \<in> set (projr (get_migrations_list ex_padded None)).
           \<forall>m' \<in> set (projr (get_migrations_list ex_padded None)).
             length (split_head (mig_id m)) = length (split_head (mig_id m'))"
    by (simp add: ex_padded_def ok_migration_def listing_defs)
  have n: "\<not> isl (get_migrations_list ex_padded None)"
    by (subst e) simp
  from listing_sorted_by_id [OF e] d w
  have "sorted (map mig_id (projr (get_migrations_list ex_padded None))) \<and>
        sorted (map number (projr (get_migrations_list ex_padded None)))"
    by blast
  with i n show ?thesis by blast
qed

subsection \<open>Resolving a target\<close>

lemma first_index_None: "first_index P xs = None \<longleftrightarrow> (\<forall>x \<in> set xs. \<not> P x)"
  by (induction xs) auto

lemma first_index_Some:
  "first_index P xs = Some i \<longleftrightarrow> i < length xs \<and> P (xs ! i) \<and> (\<forall>j<i. \<not> P (xs ! j))"
proof (induction xs arbitrary: i)
  case Nil
  then show ?case by simp
next
  case (Cons x xs)
  show ?case
  proof (cases "P x")
    case True
    then show ?thesis by (cases i) auto
  next
    case False
    show ?thesis
    proof (cases i)
      case 0
      with False show ?thesis by auto
    next
      case (Suc k)
      have "(\<forall>j<Suc k. \<not> P ((x # xs) ! j)) \<longleftrightarrow> (\<forall>j<k. \<not> P (xs ! j))"
        using False by (auto simp: less_Suc_eq_0_disj)
      with False Suc Cons.IH [of k] show ?thesis by auto
    qed
  qed
qed

text \<open>
  Claim C3, as amended. \<^verbatim>\<open>get_matching_migration\<close> raises \<^verbatim>\<open>migrations_no_such_migration\<close>
  exactly when the target matches no migration by id, name or numeric prefix of the id;
  otherwise it returns the first migration of the listing that matches, which is the
  matching migration when exactly one matches.
\<close>

theorem get_matching_migration_first_match:
  "(get_matching_migration ms target
      = Inl (YunohostValidationError ''migrations_no_such_migration'' [(''id'', target)])
    \<longleftrightarrow> (\<forall>m \<in> set ms. \<not> matches target m)) \<and>
   (\<forall>i. get_matching_migration ms target = Inr i
    \<longleftrightarrow> i < length ms \<and> matches target (ms ! i) \<and> (\<forall>j<i. \<not> matches target (ms ! j))) \<and>
   (\<forall>i<length ms. matches target (ms ! i) \<and> (\<forall>j<length ms. matches target (ms ! j) \<longrightarrow> j = i)
      \<longrightarrow> get_matching_migration ms target = Inr i)"
proof (intro conjI allI impI)
  show "get_matching_migration ms target
      = Inl (YunohostValidationError ''migrations_no_such_migration'' [(''id'', target)])
    \<longleftrightarrow> (\<forall>m \<in> set ms. \<not> matches target m)"
  proof -
    have "get_matching_migration ms target
        = Inl (YunohostValidationError ''migrations_no_such_migration'' [(''id'', target)])
      \<longleftrightarrow> first_index (matches target) ms = None"
      by (simp add: get_matching_migration_def split: option.splits)
    then show ?thesis by (simp add: first_index_None)
  qed
next
  fix i
  show "get_matching_migration ms target = Inr i
    \<longleftrightarrow> i < length ms \<and> matches target (ms ! i) \<and> (\<forall>j<i. \<not> matches target (ms ! j))"
    using first_index_Some [of "matches target" ms i]
    by (auto simp: get_matching_migration_def split: option.splits)
next
  fix i
  assume "i < length ms"
    and u: "matches target (ms ! i) \<and> (\<forall>j<length ms. matches target (ms ! j) \<longrightarrow> j = i)"
  then have "first_index (matches target) ms = Some i"
    using first_index_Some [of "matches target" ms i] by (metis less_trans nat_neq_iff)
  then show "get_matching_migration ms target = Inr i"
    by (simp add: get_matching_migration_def)
qed

text \<open>
  Claim C3, as stated, fails: the target \<^verbatim>\<open>foo\<close> matches both \<^verbatim>\<open>0001_foo\<close> and \<^verbatim>\<open>0002_foo\<close> by
  name, and \<^verbatim>\<open>get_matching_migration\<close> returns the first of them instead of raising.
\<close>

theorem get_matching_migration_ambiguous_counterexample:
  "map mig_id (projr (get_migrations_list ex_twins None)) = [''0001_foo'', ''0002_foo''] \<and>
   matches ''foo'' (projr (get_migrations_list ex_twins None) ! 0) \<and>
   matches ''foo'' (projr (get_migrations_list ex_twins None) ! 1) \<and>
   get_matching_migration (projr (get_migrations_list ex_twins None)) ''foo'' = Inr 0"
  by (simp add: ex_twins_def ok_migration_def listing_defs get_matching_migration_def matches_def)

text \<open>The amended claim C3 on the listing of \<^verbatim>\<open>0001_a\<close>, \<^verbatim>\<open>0002_b\<close>, \<^verbatim>\<open>0003_c\<close>: the target \<^verbatim>\<open>0002\<close>
  matches the second migration only, and the target \<^verbatim>\<open>zzz\<close> matches none.\<close>

theorem get_matching_migration_first_match_witness:
  "get_matching_migration (projr (get_migrations_list ex_three None)) ''0002'' = Inr 1 \<and>
   matches ''0002'' (projr (get_migrations_list ex_three None) ! 1) \<and>
   get_matching_migration (projr (get_migrations_list ex_three None)) ''zzz''
     = Inl (YunohostValidationError ''migrations_no_such_migration'' [(''id'', ''zzz'')])"
proof -
  let ?ms = "projr (get_migrations_list ex_three None)"
  have "map mig_id ?ms = [''0001_a'', ''0002_b'', ''0003_c''] \<and> map name ?ms = [''a'', ''b'', ''c'']"
    by (simp add: ex_three_def ok_migration_def listing_defs)
  have n: "\<forall>m \<in> set ?ms. \<not> matches ''zzz'' m"
    by (simp add: ex_three_def ok_migration_def listing_defs matches_def)
  have o: "(1::nat) < length ?ms \<and> matches ''0002'' (?ms ! 1) \<and> (\<forall>j<1. \<not> matches ''0002'' (?ms ! j))"
    by (simp add: ex_three_def ok_migration_def listing_defs matches_def)
  show ?thesis
    using get_matching_migration_first_match [of ?ms "''zzz''"]
      get_matching_migration_first_match [of ?ms "''0002''"] n o
    by blast
qed

subsection \<open>Writing one state\<close>

text \<open>
  Claim C8. \<^verbatim>\<open>_write_migration_state\<close> reads the file again, sets one entry and writes the
  result: afterwards the id is mapped to the state, and every other entry is what the file
  held just before the write (no entry, when the file did not exist).
\<close>

theorem write_migration_state_frame:
  "tools_migrations_state (write_migration_state i st f) i = Some st \<and>
   (\<forall>k. k \<noteq> i \<longrightarrow>
      tools_migrations_state (write_migration_state i st f) k = tools_migrations_state f k)"
  by (simp add: write_migration_state_def tools_migrations_state_def)

text \<open>Claim C8 on the file \<^verbatim>\<open>{0001_a: done, 0002_b: skipped}\<close> and the write of
  \<^verbatim>\<open>0003_c: done\<close>.\<close>

theorem write_migration_state_frame_witness:
  "tools_migrations_state (write_migration_state ''0003_c'' ''done'' ex_yaml) ''0003_c'' = Some ''done'' \<and>
   ''0001_a'' \<noteq> ''0003_c'' \<and>
   tools_migrations_state (write_migration_state ''0003_c'' ''done'' ex_yaml) ''0001_a'' = Some ''done'' \<and>
   tools_migrations_state (write_migration_state ''0003_c'' ''done'' ex_yaml) ''0002_b'' = Some ''skipped''"
proof -
  have a: "tools_migrations_state ex_yaml ''0001_a'' = Some ''done''"
    and b: "tools_migrations_state ex_yaml ''0002_b'' = Some ''skipped''"
    by (simp_all add: ex_yaml_def tools_migrations_state_def)
  have n: "''0001_a'' \<noteq> ''0003_c''" "''0002_b'' \<noteq> ''0003_c''" by simp_all
  show ?thesis
    using write_migration_state_frame [of "''0003_c''" "''done''" ex_yaml] a b n by simp
qed

subsection \<open>Listing with filters\<close>

lemma load_all_error:
  "load_all reg sts xs = Inl e \<Longrightarrow> \<exists>a. e = YunohostError ''migrations_failed_to_load_migration'' a"
proof (induction xs)
  case Nil
  then show ?case by simp
next
  case (Cons x xs)
  then show ?case
    by (auto simp: load_migration_def Let_def split: sum.splits option.splits)
qed

lemma get_migrations_list_error:
  "get_migrations_list reg f = Inl e \<Longrightarrow> \<exists>a. e = YunohostError ''migrations_failed_to_load_migration'' a"
  by (auto simp: get_migrations_list_def split: discovery.splits sum.splits dest: load_all_error)

text \<open>
  Claim C10. With both flags \<^verbatim>\<open>tools_migrations_list\<close> raises the conflict error, whatever the
  registry holds (the test comes before \<^verbatim>\<open>_get_migrations_list\<close>). With at most one flag it
  does not raise that error, and it returns the listing, filtered: \<^verbatim>\<open>done\<close> keeps the
  migrations whose state is not \<^verbatim>\<open>pending\<close>, \<^verbatim>\<open>pending\<close> those whose state is \<^verbatim>\<open>pending\<close>. An
  error of the listing itself is passed on.
\<close>

theorem tools_migrations_list_flags:
  "(pending \<and> done \<longrightarrow>
      tools_migrations_list reg pending done f
        = Inl (YunohostValidationError ''migrations_list_conflict_pending_done'' [])) \<and>
   (\<not> (pending \<and> done) \<longrightarrow>
      tools_migrations_list reg pending done f
        \<noteq> Inl (YunohostValidationError ''migrations_list_conflict_pending_done'' []) \<and>
      (\<forall>ms. get_migrations_list reg f = Inr ms \<longrightarrow>
         tools_migrations_list reg pending done f
           = Inr (filter (\<lambda>m. if done then i_state m \<noteq> ''pending''
                               else if pending then i_state m = ''pending'' else True)
                    (map info_of ms))) \<and>
      (\<forall>e. get_migrations_list reg f = Inl e \<longrightarrow> tools_migrations_list reg pending done f = Inl e))"
proof (intro conjI impI allI)
  assume "pending \<and> done"
  then show "tools_migrations_list reg pending done f
        = Inl (YunohostValidationError ''migrations_list_conflict_pending_done'' [])"
    by (simp add: tools_migrations_list_def)
next
  assume "\<not> (pending \<and> done)"
  then show "tools_migrations_list reg pending done f
        \<noteq> Inl (YunohostValidationError ''migrations_list_conflict_pending_done'' [])"
    by (auto simp: tools_migrations_list_def Let_def split: sum.splits dest: get_migrations_list_error)
next
  fix ms
  assume "\<not> (pending \<and> done)" "get_migrations_list reg f = Inr ms"
  then show "tools_migrations_list reg pending done f
           = Inr (filter (\<lambda>m. if done then i_state m \<noteq> ''pending''
                               else if pending then i_state m = ''pending'' else True)
                    (map info_of ms))"
    by (auto simp: tools_migrations_list_def Let_def)
next
  fix e
  assume "\<not> (pending \<and> done)" "get_migrations_list reg f = Inl e"
  then show "tools_migrations_list reg pending done f = Inl e"
    by (auto simp: tools_migrations_list_def)
qed

text \<open>Claim C10 on three migrations, one done, one skipped and one pending: the filter
  \<^verbatim>\<open>done\<close> keeps the first two.\<close>

theorem tools_migrations_list_flags_witness:
  "\<not> (False \<and> True) \<and>
   map i_id (projr (tools_migrations_list ex_three False True ex_yaml)) = [''0001_a'', ''0002_b''] \<and>
   map i_state (projr (tools_migrations_list ex_three False True ex_yaml)) = [''done'', ''skipped''] \<and>
   tools_migrations_list ex_three True True ex_yaml
     = Inl (YunohostValidationError ''migrations_list_conflict_pending_done'' [])"
proof -
  let ?ms = "projr (get_migrations_list ex_three ex_yaml)"
  have e: "get_migrations_list ex_three ex_yaml = Inr ?ms"
    by (simp add: ex_three_def ex_yaml_def ok_migration_def listing_defs)
  have s: "map mig_id ?ms = [''0001_a'', ''0002_b'', ''0003_c''] \<and>
           map state ?ms = [''done'', ''skipped'', ''pending'']"
    by (simp add: ex_three_def ex_yaml_def ok_migration_def listing_defs)
  have r: "tools_migrations_list ex_three False True ex_yaml
           = Inr (filter (\<lambda>m. i_state m \<noteq> ''pending'') (map info_of ?ms))"
    using tools_migrations_list_flags [of False True ex_three ex_yaml] e by simp
  have c: "tools_migrations_list ex_three True True ex_yaml
     = Inl (YunohostValidationError ''migrations_list_conflict_pending_done'' [])"
    using tools_migrations_list_flags [of True True ex_three ex_yaml] by simp
  have "map i_id (filter (\<lambda>m. i_state m \<noteq> ''pending'') (map info_of ?ms)) = [''0001_a'', ''0002_b''] \<and>
        map i_state (filter (\<lambda>m. i_state m \<noteq> ''pending'') (map info_of ?ms)) = [''done'', ''skipped'']"
    by (simp add: ex_three_def ex_yaml_def ok_migration_def listing_defs info_of_def)
  with r c show ?thesis by simp
qed

subsection \<open>A failing migration does not stop the loop\<close>

lemmas engine_defs = migrate_one_def run_migration_def skip_migration_def set_state_def
  log_event_def pending_dependencies_def has_disclaimer_def disclaimer_text_def
  get_matching_migration_def matches_def start_engine_def world_of_def
  write_migration_state_def

text \<open>
  Claim C5. The loop calls \<^verbatim>\<open>migration.run()\<close> when \<^verbatim>\<open>skip\<close> is not set and the migration has
  passed the three tests before (not a manual migration in automatic mode, no pending
  dependency, disclaimer accepted if there is one). When \<^verbatim>\<open>run()\<close> then raises \<open>e\<close>, the turn
  ends normally: the failure is logged, the unit of work is closed with
  \<^verbatim>\<open>operation_logger.error\<close>, neither the state file nor the state of any migration object
  changes, and the loop goes on with the remaining targets.
\<close>

theorem run_failure_is_caught:
  assumes "\<not> skip"
    and "\<not> (auto \<and> mode (all_migrations en ! t) = ''manual'')"
    and "pending_dependencies (all_migrations en) (all_migrations en ! t) = Inr []"
    and "has_disclaimer (all_migrations en ! t) \<longrightarrow> accept_disclaimer en"
    and "run (all_migrations en ! t) (sys en) = (Some e, s)"
  shows "\<exists>en'. migrate_one skip auto t en = (None, en') \<and>
           migrate_loop skip auto (t # ts) en = migrate_loop skip auto ts en' \<and>
           migrations_yaml en' = migrations_yaml en \<and>
           all_migrations en' = all_migrations en \<and>
           sys en' = s \<and>
           events en' = events en @
             [Operation_start ''tools_migrations_migrate_forward'',
              Logger L_info ''migrations_running_forward'' [(''id'', mig_id (all_migrations en ! t))],
              Run (mig_id (all_migrations en ! t)),
              Logger L_error ''migrations_migration_has_failed''
                [(''exception'', py_str e), (''id'', mig_id (all_migrations en ! t))],
              Operation_error ''migrations_migration_has_failed''
                [(''exception'', py_str e), (''id'', mig_id (all_migrations en ! t))]]"
  using assms
  by (cases "has_disclaimer (all_migrations en ! t)")
     (simp_all add: migrate_one_def run_migration_def log_event_def Let_def)

text \<open>Claim C5 on the targets \<^verbatim>\<open>0001_a\<close>, whose body raises, and \<^verbatim>\<open>0002_b\<close>: the loop goes on,
  \<^verbatim>\<open>0002_b\<close> runs and is written as done, \<^verbatim>\<open>0001_a\<close> has no entry.\<close>

theorem run_failure_is_caught_witness:
  "run (all_migrations ex_failing_engine ! 0) (sys ex_failing_engine)
     = (Some (Exception ''boom''), [''0001_a'']) \<and>
   (\<exists>en'. migrate_loop False False [0, 1] ex_failing_engine = migrate_loop False False [1] en' \<and>
          migrations_yaml en' = migrations_yaml ex_failing_engine \<and>
          all_migrations en' = all_migrations ex_failing_engine \<and>
          sys en' = [''0001_a'']) \<and>
   fst (migrate_loop False False [0, 1] ex_failing_engine) = None \<and>
   sys (snd (migrate_loop False False [0, 1] ex_failing_engine)) = [''0001_a'', ''0002_b''] \<and>
   tools_migrations_state (migrations_yaml (snd (migrate_loop False False [0, 1] ex_failing_engine))) ''0001_a''
     = None \<and>
   tools_migrations_state (migrations_yaml (snd (migrate_loop False False [0, 1] ex_failing_engine))) ''0002_b''
     = Some ''done''"
proof -
  have m: "\<not> (False \<and> mode (all_migrations ex_failing_engine ! 0) = ''manual'')" by simp
  have p: "pending_dependencies (all_migrations ex_failing_engine)
             (all_migrations ex_failing_engine ! 0) = Inr []"
    by (simp add: ex_failing_engine_def ex_failing_def ex_world_def failing_migration_def
          ok_migration_def listing_defs engine_defs)
  have d: "has_disclaimer (all_migrations ex_failing_engine ! 0) \<longrightarrow> accept_disclaimer ex_failing_engine"
    by (simp add: ex_failing_engine_def ex_failing_def ex_world_def failing_migration_def
          ok_migration_def listing_defs engine_defs)
  have r: "run (all_migrations ex_failing_engine ! 0) (sys ex_failing_engine)
     = (Some (Exception ''boom''), [''0001_a''])"
    by (simp add: ex_failing_engine_def ex_failing_def ex_world_def failing_migration_def
          ok_migration_def listing_defs engine_defs)
  have l: "fst (migrate_loop False False [0, 1] ex_failing_engine) = None \<and>
   sys (snd (migrate_loop False False [0, 1] ex_failing_engine)) = [''0001_a'', ''0002_b''] \<and>
   tools_migrations_state (migrations_yaml (snd (migrate_loop False False [0, 1] ex_failing_engine))) ''0001_a''
     = None \<and>
   tools_migrations_state (migrations_yaml (snd (migrate_loop False False [0, 1] ex_failing_engine))) ''0002_b''
     = Some ''done''"
    by (simp add: ex_failing_engine_def ex_failing_def ex_world_def failing_migration_def
          ok_migration_def listing_defs engine_defs)
  have n: "\<not> False" by simp
  from run_failure_is_caught [OF n m p d r, of "[1]"] r l show ?thesis
    by blast
qed

subsection \<open>Validation of explicit targets\<close>

lemma ids_where_empty: "ids_where P ms ts = [] \<longleftrightarrow> (\<forall>t \<in> set ts. \<not> P (state (ms ! t)))"
  by (simp add: ids_where_def filter_empty_conv)

lemma resolve_all_nonempty: "resolve_all ms targets = Inr ts \<Longrightarrow> targets \<noteq> [] \<Longrightarrow> ms \<noteq> []"
  by (cases targets) (auto simp: get_matching_migration_def split: sum.splits)

lemma get_migrations_list_log_empty:
  "get_migrations_list reg f = Inr ms \<Longrightarrow> ms \<noteq> [] \<Longrightarrow> get_migrations_list_log reg = []"
  by (auto simp: get_migrations_list_def get_migrations_list_log_def split: discovery.splits)

text \<open>
  Claim C6. With explicit targets that all resolve, \<^verbatim>\<open>tools_migrations_run\<close> raises a
  validation error and leaves the machine, the state file and the log as they were (no
  migration has been run) in each of three cases: \<^verbatim>\<open>skip\<close> and a target that is not pending;
  \<^verbatim>\<open>force_rerun\<close> and a target that is pending; neither flag and a target that is not pending.
  When more than one of \<^verbatim>\<open>auto\<close>, \<^verbatim>\<open>skip\<close>, \<^verbatim>\<open>force_rerun\<close> is set the error is
  \<^verbatim>\<open>migrations_exclusive_options\<close>; otherwise it is the error of the case, with the ids of the
  offending targets.
\<close>

theorem explicit_targets_validated:
  assumes "get_migrations_list reg (w_yaml w) = Inr ms"
    and "targets \<noteq> []"
    and "resolve_all ms targets = Inr ts"
  shows
    "(skip \<and> (\<exists>t \<in> set ts. state (ms ! t) \<noteq> ''pending'') \<longrightarrow>
        tools_migrations_run reg targets skip auto force_rerun acc w =
          (Some (if auto \<or> force_rerun
                 then YunohostValidationError ''migrations_exclusive_options'' []
                 else YunohostValidationError ''migrations_not_pending_cant_skip''
                        [(''ids'', join '', '' (ids_where (\<lambda>s. s \<noteq> ''pending'') ms ts))]), w)) \<and>
     (force_rerun \<and> (\<exists>t \<in> set ts. state (ms ! t) = ''pending'') \<longrightarrow>
        tools_migrations_run reg targets skip auto force_rerun acc w =
          (Some (if auto \<or> skip
                 then YunohostValidationError ''migrations_exclusive_options'' []
                 else YunohostValidationError ''migrations_pending_cant_rerun''
                        [(''ids'', join '', '' (ids_where (\<lambda>s. s = ''pending'') ms ts))]), w)) \<and>
     (\<not> skip \<and> \<not> force_rerun \<and> (\<exists>t \<in> set ts. state (ms ! t) \<noteq> ''pending'') \<longrightarrow>
        tools_migrations_run reg targets skip auto force_rerun acc w =
          (Some (YunohostValidationError ''migrations_already_ran''
                   [(''ids'', join '', '' (ids_where (\<lambda>s. s \<noteq> ''pending'') ms ts))]), w))"
proof -
  have "get_migrations_list_log reg = []"
    using assms resolve_all_nonempty get_migrations_list_log_empty by blast
  then have w: "w\<lparr>w_events := w_events w @ get_migrations_list_log reg\<rparr> = w"
    by simp
  show ?thesis
  proof (intro conjI impI)
  assume a: "skip \<and> (\<exists>t \<in> set ts. state (ms ! t) \<noteq> ''pending'')"
  then have "ids_where (\<lambda>s. s \<noteq> ''pending'') ms ts \<noteq> []"
    by (simp add: ids_where_empty)
  with a assms show "tools_migrations_run reg targets skip auto force_rerun acc w =
          (Some (if auto \<or> force_rerun
                 then YunohostValidationError ''migrations_exclusive_options'' []
                 else YunohostValidationError ''migrations_not_pending_cant_skip''
                        [(''ids'', join '', '' (ids_where (\<lambda>s. s \<noteq> ''pending'') ms ts))]), w)"
    by (simp add: tools_migrations_run_def Let_def w)
next
  assume a: "force_rerun \<and> (\<exists>t \<in> set ts. state (ms ! t) = ''pending'')"
  then have "ids_where (\<lambda>s. s = ''pending'') ms ts \<noteq> []"
    by (simp add: ids_where_empty)
  with a assms show "tools_migrations_run reg targets skip auto force_rerun acc w =
          (Some (if auto \<or> skip
                 then YunohostValidationError ''migrations_exclusive_options'' []
                 else YunohostValidationError ''migrations_pending_cant_rerun''
                        [(''ids'', join '', '' (ids_where (\<lambda>s. s = ''pending'') ms ts))]), w)"
    by (simp add: tools_migrations_run_def Let_def w)
next
  assume a: "\<not> skip \<and> \<not> force_rerun \<and> (\<exists>t \<in> set ts. state (ms ! t) \<noteq> ''pending'')"
  then have "ids_where (\<lambda>s. s \<noteq> ''pending'') ms ts \<noteq> []"
    by (simp add: ids_where_empty)
  with a assms show "tools_migrations_run reg targets skip auto force_rerun acc w =
          (Some (YunohostValidationError ''migrations_already_ran''
                   [(''ids'', join '', '' (ids_where (\<lambda>s. s \<noteq> ''pending'') ms ts))]), w)"
    by (simp add: tools_migrations_run_def Let_def w)
qed
qed

text \<open>Claim C6 on the listing of \<^verbatim>\<open>0001_a\<close> (done), \<^verbatim>\<open>0002_b\<close> (skipped) and \<^verbatim>\<open>0003_c\<close> (pending):
  skipping \<^verbatim>\<open>0001_a\<close> and \<^verbatim>\<open>0003_c\<close>, running \<^verbatim>\<open>0003_c\<close> again, and running \<^verbatim>\<open>0002_b\<close> and
  \<^verbatim>\<open>0001_a\<close> without a flag are all refused.\<close>

theorem explicit_targets_validated_witness:
  "tools_migrations_run ex_three [''0001_a'', ''c''] True False False False (ex_world ex_yaml) =
     (Some (YunohostValidationError ''migrations_not_pending_cant_skip'' [(''ids'', ''0001_a'')]),
      ex_world ex_yaml) \<and>
   tools_migrations_run ex_three [''0003''] False False True False (ex_world ex_yaml) =
     (Some (YunohostValidationError ''migrations_pending_cant_rerun'' [(''ids'', ''0003_c'')]),
      ex_world ex_yaml) \<and>
   tools_migrations_run ex_three [''b'', ''0001''] False False False False (ex_world ex_yaml) =
     (Some (YunohostValidationError ''migrations_already_ran'' [(''ids'', ''0002_b, 0001_a'')]),
      ex_world ex_yaml)"
proof -
  let ?ms = "projr (get_migrations_list ex_three (w_yaml (ex_world ex_yaml)))"
  have e: "get_migrations_list ex_three (w_yaml (ex_world ex_yaml)) = Inr ?ms"
    by (simp add: ex_three_def ex_yaml_def ex_world_def ok_migration_def listing_defs)
  have r1: "resolve_all ?ms [''0001_a'', ''c''] = Inr [0, 2]"
    and r2: "resolve_all ?ms [''0003''] = Inr [2]"
    and r3: "resolve_all ?ms [''b'', ''0001''] = Inr [1, 0]"
    by (simp_all add: ex_three_def ex_yaml_def ex_world_def ok_migration_def listing_defs engine_defs)
  have s: "state (?ms ! 0) = ''done''" "state (?ms ! 1) = ''skipped''" "state (?ms ! 2) = ''pending''"
    "mig_id (?ms ! 0) = ''0001_a''" "mig_id (?ms ! 1) = ''0002_b''" "mig_id (?ms ! 2) = ''0003_c''"
    by (simp_all add: ex_three_def ex_yaml_def ex_world_def ok_migration_def listing_defs)
  have n: "[''0001_a'', ''c''] \<noteq> []" "[''0003''] \<noteq> []" "[''b'', ''0001''] \<noteq> []" by simp_all
  have c1: "True \<and> (\<exists>t \<in> set [0, 2]. state (?ms ! t) \<noteq> ''pending'')"
    and c2: "True \<and> (\<exists>t \<in> set [2]. state (?ms ! t) = ''pending'')"
    and c3: "\<not> False \<and> \<not> False \<and> (\<exists>t \<in> set [1, 0]. state (?ms ! t) \<noteq> ''pending'')"
    using s by simp_all
  have i1: "ids_where (\<lambda>s. s \<noteq> ''pending'') ?ms [0, 2] = [''0001_a'']"
    and i2: "ids_where (\<lambda>s. s = ''pending'') ?ms [2] = [''0003_c'']"
    and i3: "ids_where (\<lambda>s. s \<noteq> ''pending'') ?ms [1, 0] = [''0002_b'', ''0001_a'']"
    using s by (simp_all add: ids_where_def)
  have "tools_migrations_run ex_three [''0001_a'', ''c''] True False False False (ex_world ex_yaml) =
     (Some (YunohostValidationError ''migrations_not_pending_cant_skip'' [(''ids'', ''0001_a'')]),
      ex_world ex_yaml)"
    using explicit_targets_validated [OF e n(1) r1, of True False False False] c1 i1 by simp
  moreover have "tools_migrations_run ex_three [''0003''] False False True False (ex_world ex_yaml) =
     (Some (YunohostValidationError ''migrations_pending_cant_rerun'' [(''ids'', ''0003_c'')]),
      ex_world ex_yaml)"
    using explicit_targets_validated [OF e n(2) r2, of False False True False] c2 i2 by simp
  moreover have "tools_migrations_run ex_three [''b'', ''0001''] False False False False (ex_world ex_yaml) =
     (Some (YunohostValidationError ''migrations_already_ran'' [(''ids'', ''0002_b, 0001_a'')]),
      ex_world ex_yaml)"
    using explicit_targets_validated [OF e n(3) r3, of False False False False] c3 i3 by simp
  ultimately show ?thesis by blast
qed

subsection \<open>The acceptance of disclaimers is used once\<close>

lemma migrate_loop_append:
  "migrate_loop skip auto (xs @ ys) en =
     (case migrate_loop skip auto xs en of
        (Some e, en') \<Rightarrow> (Some e, en')
      | (None, en') \<Rightarrow> migrate_loop skip auto ys en')"
  by (induction xs arbitrary: en) (auto split: prod.splits option.splits)

lemma migrate_one_stopped:
  assumes "\<not> skip" "stopped_before_disclaimer_test auto (all_migrations en) u"
  shows "\<exists>ev. migrate_one skip auto u en = (None, en\<lparr>events := events en @ [ev]\<rparr>) \<and>
           is_logger ev \<and>
           (ev = Logger L_warn ''migrations_to_be_ran_manually''
                   [(''id'', mig_id (all_migrations en ! u))] \<or>
            (\<exists>ps. ev = Logger L_error ''migrations_dependencies_not_satisfied''
                   [(''id'', mig_id (all_migrations en ! u)), (''dependencies_id'', ps)]))"
  using assms
  by (auto simp: migrate_one_def log_event_def Let_def stopped_before_disclaimer_test_def
           split: if_splits sum.splits list.splits)

lemma migrate_loop_stopped:
  assumes "\<not> skip" "\<forall>u \<in> set pre. stopped_before_disclaimer_test auto (all_migrations en) u"
  shows "\<exists>evs. migrate_loop skip auto pre en = (None, en\<lparr>events := events en @ evs\<rparr>) \<and>
           list_all is_logger evs"
  using assms
proof (induction pre arbitrary: en)
  case Nil
  have "en\<lparr>events := events en @ []\<rparr> = en" by simp
  then show ?case by (intro exI [of _ "[]"]) simp
next
  case (Cons u pre)
  from migrate_one_stopped [OF Cons.prems(1), of auto en u] Cons.prems(2)
  obtain ev where o: "migrate_one skip auto u en = (None, en\<lparr>events := events en @ [ev]\<rparr>)"
    and l: "is_logger ev"
    by auto
  let ?en1 = "en\<lparr>events := events en @ [ev]\<rparr>"
  have "\<forall>u \<in> set pre. stopped_before_disclaimer_test auto (all_migrations ?en1) u"
    using Cons.prems(2) by simp
  from Cons.IH [OF Cons.prems(1) this]
  obtain evs where r: "migrate_loop skip auto pre ?en1 = (None, ?en1\<lparr>events := events ?en1 @ evs\<rparr>)"
    and ls: "list_all is_logger evs"
    by blast
  have "migrate_loop skip auto (u # pre) en = (None, en\<lparr>events := events en @ (ev # evs)\<rparr>)"
    using o r by simp
  moreover have "list_all is_logger (ev # evs)" using l ls by simp
  ultimately show ?case by blast
qed

lemma migrate_one_not_accepted:
  assumes "\<not> skip" "\<not> accept_disclaimer en" "has_disclaimer (all_migrations en ! u)"
    and "migrate_one skip auto u en = (r, en')"
  shows "all_migrations en' = all_migrations en \<and> migrations_yaml en' = migrations_yaml en \<and>
         sys en' = sys en \<and> \<not> accept_disclaimer en' \<and>
         (\<exists>evs. events en' = events en @ evs \<and> list_all is_logger evs \<and>
            (reaches_disclaimer_test auto (all_migrations en) u \<longrightarrow>
               r = None \<and>
               evs = [Logger L_warn ''migrations_need_to_accept_disclaimer''
                       [(''id'', mig_id (all_migrations en ! u)),
                        (''disclaimer'', disclaimer_text (all_migrations en ! u))]]) \<and>
            (stopped_before_disclaimer_test auto (all_migrations en) u \<longrightarrow>
               r = None \<and>
               (evs = [Logger L_warn ''migrations_to_be_ran_manually''
                        [(''id'', mig_id (all_migrations en ! u))]] \<or>
                (\<exists>ps. evs = [Logger L_error ''migrations_dependencies_not_satisfied''
                        [(''id'', mig_id (all_migrations en ! u)), (''dependencies_id'', ps)]]))))"
proof (cases "stopped_before_disclaimer_test auto (all_migrations en) u")
  case True
  from migrate_one_stopped [OF assms(1) True]
  obtain ev where o: "migrate_one skip auto u en = (None, en\<lparr>events := events en @ [ev]\<rparr>)"
    "is_logger ev"
    "ev = Logger L_warn ''migrations_to_be_ran_manually''
                   [(''id'', mig_id (all_migrations en ! u))] \<or>
            (\<exists>ps. ev = Logger L_error ''migrations_dependencies_not_satisfied''
                   [(''id'', mig_id (all_migrations en ! u)), (''dependencies_id'', ps)])"
    by blast
  have n: "\<not> reaches_disclaimer_test auto (all_migrations en) u"
    using True
    by (auto simp: reaches_disclaimer_test_def stopped_before_disclaimer_test_def)
  have e: "r = None" "en' = en\<lparr>events := events en @ [ev]\<rparr>"
    using o(1) assms(4) by simp_all
  have "events en' = events en @ [ev] \<and> list_all is_logger [ev] \<and>
            (reaches_disclaimer_test auto (all_migrations en) u \<longrightarrow>
               r = None \<and>
               [ev] = [Logger L_warn ''migrations_need_to_accept_disclaimer''
                       [(''id'', mig_id (all_migrations en ! u)),
                        (''disclaimer'', disclaimer_text (all_migrations en ! u))]]) \<and>
            (stopped_before_disclaimer_test auto (all_migrations en) u \<longrightarrow>
               r = None \<and>
               ([ev] = [Logger L_warn ''migrations_to_be_ran_manually''
                        [(''id'', mig_id (all_migrations en ! u))]] \<or>
                (\<exists>ps. [ev] = [Logger L_error ''migrations_dependencies_not_satisfied''
                        [(''id'', mig_id (all_migrations en ! u)), (''dependencies_id'', ps)]])))"
    using e o(2,3) n by simp
  then show ?thesis using e assms(2) by (intro conjI exI [of _ "[ev]"]) simp_all
next
  case False
  with assms show ?thesis
    by (auto simp: migrate_one_def log_event_def Let_def reaches_disclaimer_test_def
             stopped_before_disclaimer_test_def
             split: if_splits sum.splits list.splits)
qed

lemma migrate_loop_not_accepted:
  assumes "\<not> skip" "\<not> accept_disclaimer en" "\<forall>u \<in> set ts. has_disclaimer (all_migrations en ! u)"
    and "migrate_loop skip auto ts en = (r, en')"
  shows "all_migrations en' = all_migrations en \<and> migrations_yaml en' = migrations_yaml en \<and>
         sys en' = sys en \<and>
         (\<exists>evs. events en' = events en @ evs \<and> list_all is_logger evs \<and>
            (r = None \<longrightarrow>
              (\<forall>u \<in> set ts.
                 ((reaches_disclaimer_test auto (all_migrations en) u \<longrightarrow>
                 Logger L_warn ''migrations_need_to_accept_disclaimer''
                   [(''id'', mig_id (all_migrations en ! u)),
                    (''disclaimer'', disclaimer_text (all_migrations en ! u))] \<in> set evs) \<and>
              (stopped_before_disclaimer_test auto (all_migrations en) u \<longrightarrow>
                 Logger L_warn ''migrations_to_be_ran_manually''
                   [(''id'', mig_id (all_migrations en ! u))] \<in> set evs \<or>
                 (\<exists>ps. Logger L_error ''migrations_dependencies_not_satisfied''
                   [(''id'', mig_id (all_migrations en ! u)), (''dependencies_id'', ps)] \<in> set evs))))))"
  using assms
proof (induction ts arbitrary: en)
  case Nil
  then show ?case by simp
next
  case (Cons t ts)
  obtain r1 en1 where s: "migrate_one skip auto t en = (r1, en1)"
    by (cases "migrate_one skip auto t en")
  have ht: "has_disclaimer (all_migrations en ! t)" using Cons.prems(3) by simp
  from migrate_one_not_accepted [OF Cons.prems(1,2) ht s]
  obtain evs1 where a1: "all_migrations en1 = all_migrations en"
    and y1: "migrations_yaml en1 = migrations_yaml en" and s1: "sys en1 = sys en"
    and n1: "\<not> accept_disclaimer en1"
    and e1: "events en1 = events en @ evs1" and l1: "list_all is_logger evs1"
    and w1: "reaches_disclaimer_test auto (all_migrations en) t \<longrightarrow>
               r1 = None \<and>
               evs1 = [Logger L_warn ''migrations_need_to_accept_disclaimer''
                       [(''id'', mig_id (all_migrations en ! t)),
                        (''disclaimer'', disclaimer_text (all_migrations en ! t))]]"
    and x1: "stopped_before_disclaimer_test auto (all_migrations en) t \<longrightarrow>
               r1 = None \<and>
               (evs1 = [Logger L_warn ''migrations_to_be_ran_manually''
                        [(''id'', mig_id (all_migrations en ! t))]] \<or>
                (\<exists>ps. evs1 = [Logger L_error ''migrations_dependencies_not_satisfied''
                        [(''id'', mig_id (all_migrations en ! t)), (''dependencies_id'', ps)]]))"
    by blast
  show ?case
  proof (cases r1)
    case (Some e)
    then have "r = Some e" "en' = en1" using Cons.prems(4) s by simp_all
    then show ?thesis using a1 y1 s1 e1 l1 by simp
  next
    case None
    then have l: "migrate_loop skip auto ts en1 = (r, en')" using Cons.prems(4) s by simp
    have h: "\<forall>u \<in> set ts. has_disclaimer (all_migrations en1 ! u)"
      using Cons.prems(3) a1 by simp
    from Cons.IH [OF Cons.prems(1) n1 h l]
    obtain evs2 where a2: "all_migrations en' = all_migrations en1"
      and y2: "migrations_yaml en' = migrations_yaml en1" and s2: "sys en' = sys en1"
      and e2: "events en' = events en1 @ evs2" and l2: "list_all is_logger evs2"
      and w2: "r = None \<longrightarrow>
              (\<forall>u \<in> set ts.
                 ((reaches_disclaimer_test auto (all_migrations en1) u \<longrightarrow>
                 Logger L_warn ''migrations_need_to_accept_disclaimer''
                   [(''id'', mig_id (all_migrations en1 ! u)),
                    (''disclaimer'', disclaimer_text (all_migrations en1 ! u))] \<in> set evs2) \<and>
              (stopped_before_disclaimer_test auto (all_migrations en1) u \<longrightarrow>
                 Logger L_warn ''migrations_to_be_ran_manually''
                   [(''id'', mig_id (all_migrations en1 ! u))] \<in> set evs2 \<or>
                 (\<exists>ps. Logger L_error ''migrations_dependencies_not_satisfied''
                   [(''id'', mig_id (all_migrations en1 ! u)), (''dependencies_id'', ps)] \<in> set evs2))))"
      by blast
    have c1: "events en' = events en @ (evs1 @ evs2)" using e1 e2 by simp
    have c2: "list_all is_logger (evs1 @ evs2)" using l1 l2 by simp
    have c3: "r = None \<longrightarrow>
              (\<forall>u \<in> set (t # ts).
                 ((reaches_disclaimer_test auto (all_migrations en) u \<longrightarrow>
                 Logger L_warn ''migrations_need_to_accept_disclaimer''
                   [(''id'', mig_id (all_migrations en ! u)),
                    (''disclaimer'', disclaimer_text (all_migrations en ! u))] \<in> set (evs1 @ evs2)) \<and>
              (stopped_before_disclaimer_test auto (all_migrations en) u \<longrightarrow>
                 Logger L_warn ''migrations_to_be_ran_manually''
                   [(''id'', mig_id (all_migrations en ! u))] \<in> set (evs1 @ evs2) \<or>
                 (\<exists>ps. Logger L_error ''migrations_dependencies_not_satisfied''
                   [(''id'', mig_id (all_migrations en ! u)), (''dependencies_id'', ps)] \<in> set (evs1 @ evs2)))))"
    proof (intro impI ballI)
      fix u assume rn: "r = None" and u: "u \<in> set (t # ts)"
      show "((reaches_disclaimer_test auto (all_migrations en) u \<longrightarrow>
                 Logger L_warn ''migrations_need_to_accept_disclaimer''
                   [(''id'', mig_id (all_migrations en ! u)),
                    (''disclaimer'', disclaimer_text (all_migrations en ! u))] \<in> set (evs1 @ evs2)) \<and>
              (stopped_before_disclaimer_test auto (all_migrations en) u \<longrightarrow>
                 Logger L_warn ''migrations_to_be_ran_manually''
                   [(''id'', mig_id (all_migrations en ! u))] \<in> set (evs1 @ evs2) \<or>
                 (\<exists>ps. Logger L_error ''migrations_dependencies_not_satisfied''
                   [(''id'', mig_id (all_migrations en ! u)), (''dependencies_id'', ps)] \<in> set (evs1 @ evs2))))"
      proof (cases "u \<in> set ts")
        case True
        then show ?thesis using w2 rn a1 by auto
      next
        case False
        then have "u = t" using u by simp
        then show ?thesis using w1 x1 by auto
      qed
    qed
    have "\<exists>evs. events en' = events en @ evs \<and> list_all is_logger evs \<and>
            (r = None \<longrightarrow>
              (\<forall>u \<in> set (t # ts).
                 ((reaches_disclaimer_test auto (all_migrations en) u \<longrightarrow>
                 Logger L_warn ''migrations_need_to_accept_disclaimer''
                   [(''id'', mig_id (all_migrations en ! u)),
                    (''disclaimer'', disclaimer_text (all_migrations en ! u))] \<in> set evs) \<and>
              (stopped_before_disclaimer_test auto (all_migrations en) u \<longrightarrow>
                 Logger L_warn ''migrations_to_be_ran_manually''
                   [(''id'', mig_id (all_migrations en ! u))] \<in> set evs \<or>
                 (\<exists>ps. Logger L_error ''migrations_dependencies_not_satisfied''
                   [(''id'', mig_id (all_migrations en ! u)), (''dependencies_id'', ps)] \<in> set evs)))))"
      using c1 c2 c3 by (intro exI [of _ "evs1 @ evs2"] conjI)
    then show ?thesis using a1 a2 y1 y2 s1 s2 by simp
  qed
qed

lemma has_disclaimer_run_migration:
  "has_disclaimer (all_migrations (run_migration t en) ! u) = has_disclaimer (all_migrations en ! u)"
proof (cases "run (all_migrations en ! t) (sys en)")
  case (Pair r s)
  show ?thesis
  proof (cases "t < length (all_migrations en)")
    case True
    then show ?thesis using Pair
      by (cases r; cases "u = t")
         (simp_all add: run_migration_def set_state_def log_event_def Let_def has_disclaimer_def)
  next
    case False
    then show ?thesis using Pair
      by (cases r) (simp_all add: run_migration_def set_state_def log_event_def Let_def not_less list_update_beyond)
  qed
qed

lemma run_migration_frame:
  "accept_disclaimer (run_migration t en) = accept_disclaimer en \<and>
   Run (mig_id (all_migrations en ! t)) \<in> set (events (run_migration t en)) \<and>
   (\<forall>u. u \<noteq> t \<longrightarrow> all_migrations (run_migration t en) ! u = all_migrations en ! u) \<and>
   (\<forall>k. k \<noteq> mig_id (all_migrations en ! t) \<longrightarrow>
      tools_migrations_state (migrations_yaml (run_migration t en)) k
        = tools_migrations_state (migrations_yaml en) k)"
proof (cases "run (all_migrations en ! t) (sys en)")
  case (Pair r s)
  then show ?thesis
    by (cases r)
       (simp_all add: run_migration_def set_state_def log_event_def Let_def
          write_migration_state_def tools_migrations_state_def)
qed

text \<open>
  Claim C4, as amended. \<^verbatim>\<open>skip\<close> is not set, the acceptance is given, and the targets all
  carry a disclaimer. The acceptance is used by the first target \<open>t\<close> that comes to the test
  of the disclaimer, which need not be the first target: the targets \<open>pre\<close> before it, which
  the tests of the manual mode and of the dependencies stop, are not run and leave the
  acceptance as it is (the loop only logs for them). For \<open>t\<close> the loop sets
  \<^verbatim>\<open>accept_disclaimer\<close> to \<^verbatim>\<open>False\<close> and runs it. For the remaining targets \<open>ts\<close> the loop calls
  nothing but the logger (no \<^verbatim>\<open>run()\<close>, no unit of work); the machine, the state file and
  the migration objects stay as \<open>t\<close> left them, so that every target other than \<open>t\<close> keeps the
  state it had; and, unless the lookup of a dependency raised, each of them has got the
  message of the test that stopped it: the warning \<^verbatim>\<open>migrations_need_to_accept_disclaimer\<close>
  when it came to the test of the disclaimer, and else the warning
  \<^verbatim>\<open>migrations_to_be_ran_manually\<close> or the error \<^verbatim>\<open>migrations_dependencies_not_satisfied\<close>.
\<close>

theorem disclaimer_acceptance_single_use:
  assumes "\<not> skip" and "accept_disclaimer en"
    and "\<forall>u \<in> set (pre @ t # ts). has_disclaimer (all_migrations en ! u)"
    and "\<forall>u \<in> set pre. stopped_before_disclaimer_test auto (all_migrations en) u"
    and "reaches_disclaimer_test auto (all_migrations en) t"
    and "migrate_loop skip auto (pre @ t # ts) en = (r, en')"
  shows "\<exists>evs0 en0 en1 evs.
           migrate_loop skip auto pre en = (None, en0) \<and>
           en0 = en\<lparr>events := events en @ evs0\<rparr> \<and> list_all is_logger evs0 \<and>
           migrate_one skip auto t en0 = (None, en1) \<and>
           en1 = run_migration t
                   (log_event (Operation_start ''tools_migrations_migrate_forward'')
                      (en0\<lparr>accept_disclaimer := False\<rparr>)) \<and>
           Run (mig_id (all_migrations en ! t)) \<in> set (events en1) \<and>
           migrate_loop skip auto ts en1 = (r, en') \<and>
           all_migrations en' = all_migrations en1 \<and>
           migrations_yaml en' = migrations_yaml en1 \<and>
           sys en' = sys en1 \<and>
           events en' = events en1 @ evs \<and> list_all is_logger evs \<and>
           (\<forall>u. u \<noteq> t \<longrightarrow> all_migrations en' ! u = all_migrations en ! u) \<and>
           (\<forall>k. k \<noteq> mig_id (all_migrations en ! t) \<longrightarrow>
              tools_migrations_state (migrations_yaml en') k
                = tools_migrations_state (migrations_yaml en) k) \<and>
           (r = None \<longrightarrow>
              (\<forall>u \<in> set ts.
                 ((reaches_disclaimer_test auto (all_migrations en1) u \<longrightarrow>
                 Logger L_warn ''migrations_need_to_accept_disclaimer''
                   [(''id'', mig_id (all_migrations en1 ! u)),
                    (''disclaimer'', disclaimer_text (all_migrations en1 ! u))] \<in> set evs) \<and>
              (stopped_before_disclaimer_test auto (all_migrations en1) u \<longrightarrow>
                 Logger L_warn ''migrations_to_be_ran_manually''
                   [(''id'', mig_id (all_migrations en1 ! u))] \<in> set evs \<or>
                 (\<exists>ps. Logger L_error ''migrations_dependencies_not_satisfied''
                   [(''id'', mig_id (all_migrations en1 ! u)), (''dependencies_id'', ps)] \<in> set evs)))))"
proof -
  from migrate_loop_stopped [OF assms(1,4)]
  obtain evs0 where p: "migrate_loop skip auto pre en = (None, en\<lparr>events := events en @ evs0\<rparr>)"
    and l0: "list_all is_logger evs0"
    by blast
  define en0 where "en0 = en\<lparr>events := events en @ evs0\<rparr>"
  have b0: "all_migrations en0 = all_migrations en" "migrations_yaml en0 = migrations_yaml en"
    "accept_disclaimer en0 = accept_disclaimer en"
    by (simp_all add: en0_def)
  let ?en00 = "log_event (Operation_start ''tools_migrations_migrate_forward'')
                (en0\<lparr>accept_disclaimer := False\<rparr>)"
  let ?en1 = "run_migration t ?en00"
  have a0: "all_migrations ?en00 = all_migrations en" "migrations_yaml ?en00 = migrations_yaml en"
    "accept_disclaimer ?en00 = False"
    by (simp_all add: log_event_def b0)
  have ht: "has_disclaimer (all_migrations en0 ! t)" using assms(3) b0 by simp
  have rt: "reaches_disclaimer_test auto (all_migrations en0) t" using assms(5) b0 by simp
  have ac: "accept_disclaimer en0" using assms(2) b0 by simp
  have one: "migrate_one skip auto t en0 = (None, ?en1)"
    using assms(1) ac ht rt by (auto simp: migrate_one_def reaches_disclaimer_test_def Let_def)
  have "migrate_loop skip auto (pre @ t # ts) en = migrate_loop skip auto (t # ts) en0"
    using p by (simp add: migrate_loop_append en0_def)
  then have loop: "migrate_loop skip auto ts ?en1 = (r, en')"
    using assms(6) one by simp
  have f: "accept_disclaimer ?en1 = accept_disclaimer ?en00"
    "Run (mig_id (all_migrations ?en00 ! t)) \<in> set (events ?en1)"
    "\<forall>u. u \<noteq> t \<longrightarrow> all_migrations ?en1 ! u = all_migrations ?en00 ! u"
    "\<forall>k. k \<noteq> mig_id (all_migrations ?en00 ! t) \<longrightarrow>
       tools_migrations_state (migrations_yaml ?en1) k = tools_migrations_state (migrations_yaml ?en00) k"
    using run_migration_frame [of t ?en00] by blast+
  have n: "\<not> accept_disclaimer ?en1" using f(1) a0(3) by simp
  have h: "\<forall>u \<in> set ts. has_disclaimer (all_migrations ?en1 ! u)"
    using assms(3) a0(1) by (simp add: has_disclaimer_run_migration)
  from migrate_loop_not_accepted [OF assms(1) n h loop]
  obtain evs where r: "all_migrations en' = all_migrations ?en1"
    "migrations_yaml en' = migrations_yaml ?en1" "sys en' = sys ?en1"
    "events en' = events ?en1 @ evs" "list_all is_logger evs"
    "r = None \<longrightarrow>
       (\<forall>u \<in> set ts.
          ((reaches_disclaimer_test auto (all_migrations ?en1) u \<longrightarrow>
                 Logger L_warn ''migrations_need_to_accept_disclaimer''
                   [(''id'', mig_id (all_migrations ?en1 ! u)),
                    (''disclaimer'', disclaimer_text (all_migrations ?en1 ! u))] \<in> set evs) \<and>
              (stopped_before_disclaimer_test auto (all_migrations ?en1) u \<longrightarrow>
                 Logger L_warn ''migrations_to_be_ran_manually''
                   [(''id'', mig_id (all_migrations ?en1 ! u))] \<in> set evs \<or>
                 (\<exists>ps. Logger L_error ''migrations_dependencies_not_satisfied''
                   [(''id'', mig_id (all_migrations ?en1 ! u)), (''dependencies_id'', ps)] \<in> set evs))))"
    by blast
  have g1: "\<forall>u. u \<noteq> t \<longrightarrow> all_migrations en' ! u = all_migrations en ! u"
    using f(3) r(1) a0(1) by simp
  have g2: "\<forall>k. k \<noteq> mig_id (all_migrations en ! t) \<longrightarrow>
              tools_migrations_state (migrations_yaml en') k
                = tools_migrations_state (migrations_yaml en) k"
    using f(4) r(2) a0(1,2) by simp
  have g3: "Run (mig_id (all_migrations en ! t)) \<in> set (events ?en1)"
    using f(2) a0(1) by simp
  have p': "migrate_loop skip auto pre en = (None, en0)" using p by (simp add: en0_def)
  show ?thesis
    using p' l0 one loop r g1 g2 g3
    by (intro exI [of _ evs0] exI [of _ en0] exI [of _ ?en1] exI [of _ evs] conjI)
       (simp_all add: en0_def)
qed

text \<open>
  Claim C4, as stated, fails: \<^verbatim>\<open>tools_migrations_run\<close> with the acceptance and the targets
  \<^verbatim>\<open>0001_a\<close> and \<^verbatim>\<open>0002_b\<close>, which both carry a disclaimer. The first target processed,
  \<^verbatim>\<open>0001_a\<close>, has the pending dependency \<^verbatim>\<open>0003_c\<close>: it is not run and gets the error of the
  dependencies. The second, \<^verbatim>\<open>0002_b\<close>, is run with the acceptance and written as done.
\<close>

theorem disclaimer_first_target_counterexample:
  "has_disclaimer (projr (get_migrations_list ex_blocked None) ! 0) \<and>
   has_disclaimer (projr (get_migrations_list ex_blocked None) ! 1) \<and>
   resolve_all (projr (get_migrations_list ex_blocked None)) [''0001_a'', ''0002_b''] = Inr [0, 1] \<and>
   fst (tools_migrations_run ex_blocked [''0001_a'', ''0002_b''] False False False True (ex_world None))
     = None \<and>
   w_events (snd (tools_migrations_run ex_blocked [''0001_a'', ''0002_b''] False False False True
                    (ex_world None)))
     = [Logger L_error ''migrations_dependencies_not_satisfied''
          [(''id'', ''0001_a''), (''dependencies_id'', ''0003_c'')],
        Operation_start ''tools_migrations_migrate_forward'',
        Logger L_info ''migrations_running_forward'' [(''id'', ''0002_b'')],
        Run ''0002_b'',
        Logger L_success ''migrations_success_forward'' [(''id'', ''0002_b'')],
        Operation_success] \<and>
   w_sys (snd (tools_migrations_run ex_blocked [''0001_a'', ''0002_b''] False False False True
                 (ex_world None)))
     = [''0002_b''] \<and>
   tools_migrations_state
     (w_yaml (snd (tools_migrations_run ex_blocked [''0001_a'', ''0002_b''] False False False True
                     (ex_world None)))) ''0001_a'' = None \<and>
   tools_migrations_state
     (w_yaml (snd (tools_migrations_run ex_blocked [''0001_a'', ''0002_b''] False False False True
                     (ex_world None)))) ''0002_b'' = Some ''done''"
  by (simp add: ex_blocked_def ex_world_def ok_migration_def listing_defs engine_defs
        tools_migrations_run_def run_targets_def get_migrations_list_log_def ids_where_def)

text \<open>The amended claim C4 on the targets \<^verbatim>\<open>0001_a\<close> (stopped by its pending dependency),
  \<^verbatim>\<open>0002_b\<close> (run with the acceptance), \<^verbatim>\<open>0004_d\<close> (warned, not run) and \<^verbatim>\<open>0001_a\<close> again
  (stopped again), all with a disclaimer.\<close>

theorem disclaimer_acceptance_single_use_witness:
  "accept_disclaimer ex_blocked_engine \<and>
   has_disclaimer (all_migrations ex_blocked_engine ! 0) \<and>
   has_disclaimer (all_migrations ex_blocked_engine ! 1) \<and>
   has_disclaimer (all_migrations ex_blocked_engine ! 3) \<and>
   stopped_before_disclaimer_test False (all_migrations ex_blocked_engine) 0 \<and>
   reaches_disclaimer_test False (all_migrations ex_blocked_engine) 1 \<and>
   fst (migrate_loop False False ([0] @ 1 # [3, 0]) ex_blocked_engine) = None \<and>
   sys (snd (migrate_loop False False ([0] @ 1 # [3, 0]) ex_blocked_engine)) = [''0002_b''] \<and>
   map state (all_migrations (snd (migrate_loop False False ([0] @ 1 # [3, 0]) ex_blocked_engine)))
     = [''pending'', ''done'', ''pending'', ''pending''] \<and>
   events (snd (migrate_loop False False ([0] @ 1 # [3, 0]) ex_blocked_engine))
     = [Logger L_error ''migrations_dependencies_not_satisfied''
          [(''id'', ''0001_a''), (''dependencies_id'', ''0003_c'')],
        Operation_start ''tools_migrations_migrate_forward'',
        Logger L_info ''migrations_running_forward'' [(''id'', ''0002_b'')],
        Run ''0002_b'',
        Logger L_success ''migrations_success_forward'' [(''id'', ''0002_b'')],
        Operation_success,
        Logger L_warn ''migrations_need_to_accept_disclaimer''
          [(''id'', ''0004_d''), (''disclaimer'', ''read this first'')],
        Logger L_error ''migrations_dependencies_not_satisfied''
          [(''id'', ''0001_a''), (''dependencies_id'', ''0003_c'')]] \<and>
   (\<exists>evs0 en0 en1 evs.
           migrate_loop False False [0] ex_blocked_engine = (None, en0) \<and>
           en0 = ex_blocked_engine\<lparr>events := events ex_blocked_engine @ evs0\<rparr> \<and> list_all is_logger evs0 \<and>
           migrate_one False False 1 en0 = (None, en1) \<and>
           en1 = run_migration 1
                   (log_event (Operation_start ''tools_migrations_migrate_forward'')
                      (en0\<lparr>accept_disclaimer := False\<rparr>)) \<and>
           Run (mig_id (all_migrations ex_blocked_engine ! 1)) \<in> set (events en1) \<and>
           migrate_loop False False [3, 0] en1 = ((fst (migrate_loop False False ([0] @ 1 # [3, 0]) ex_blocked_engine)), (snd (migrate_loop False False ([0] @ 1 # [3, 0]) ex_blocked_engine))) \<and>
           all_migrations (snd (migrate_loop False False ([0] @ 1 # [3, 0]) ex_blocked_engine)) = all_migrations en1 \<and>
           migrations_yaml (snd (migrate_loop False False ([0] @ 1 # [3, 0]) ex_blocked_engine)) = migrations_yaml en1 \<and>
           sys (snd (migrate_loop False False ([0] @ 1 # [3, 0]) ex_blocked_engine)) = sys en1 \<and>
           events (snd (migrate_loop False False ([0] @ 1 # [3, 0]) ex_blocked_engine)) = events en1 @ evs \<and> list_all is_logger evs \<and>
           (\<forall>u. u \<noteq> 1 \<longrightarrow> all_migrations (snd (migrate_loop False False ([0] @ 1 # [3, 0]) ex_blocked_engine)) ! u = all_migrations ex_blocked_engine ! u) \<and>
           (\<forall>k. k \<noteq> mig_id (all_migrations ex_blocked_engine ! 1) \<longrightarrow>
              tools_migrations_state (migrations_yaml (snd (migrate_loop False False ([0] @ 1 # [3, 0]) ex_blocked_engine))) k
                = tools_migrations_state (migrations_yaml ex_blocked_engine) k) \<and>
           ((fst (migrate_loop False False ([0] @ 1 # [3, 0]) ex_blocked_engine)) = None \<longrightarrow>
              (\<forall>u \<in> set [3, 0].
                 ((reaches_disclaimer_test False (all_migrations en1) u \<longrightarrow>
                 Logger L_warn ''migrations_need_to_accept_disclaimer''
                   [(''id'', mig_id (all_migrations en1 ! u)),
                    (''disclaimer'', disclaimer_text (all_migrations en1 ! u))] \<in> set evs) \<and>
              (stopped_before_disclaimer_test False (all_migrations en1) u \<longrightarrow>
                 Logger L_warn ''migrations_to_be_ran_manually''
                   [(''id'', mig_id (all_migrations en1 ! u))] \<in> set evs \<or>
                 (\<exists>ps. Logger L_error ''migrations_dependencies_not_satisfied''
                   [(''id'', mig_id (all_migrations en1 ! u)), (''dependencies_id'', ps)] \<in> set evs))))))"
proof -
  let ?en = ex_blocked_engine
  let ?r = "migrate_loop False False ([0] @ 1 # [3, 0]) ?en"
  note defs = ex_blocked_engine_def ex_blocked_def ex_world_def ok_migration_def
    listing_defs engine_defs reaches_disclaimer_test_def stopped_before_disclaimer_test_def
  have 1: "\<not> False" by simp
  have 2: "accept_disclaimer ?en" by (simp add: defs)
  have h0: "has_disclaimer (all_migrations ?en ! 0)" by (simp add: defs)
  have h1: "has_disclaimer (all_migrations ?en ! 1)" by (simp add: defs)
  have h3: "has_disclaimer (all_migrations ?en ! 3)" by (simp add: defs)
  have 3: "\<forall>u \<in> set ([0] @ 1 # [3, 0]). has_disclaimer (all_migrations ?en ! u)"
    using h0 h1 h3 by simp
  have s0: "stopped_before_disclaimer_test False (all_migrations ?en) 0" by (simp add: defs)
  have 4: "\<forall>u \<in> set [0]. stopped_before_disclaimer_test False (all_migrations ?en) u"
    using s0 by simp
  have 5: "reaches_disclaimer_test False (all_migrations ?en) 1" by (simp add: defs)
  have 6: "migrate_loop False False ([0] @ 1 # [3, 0]) ?en = (fst ?r, snd ?r)" by simp
  have v1: "fst ?r = None" by (simp add: defs)
  have v2: "sys (snd ?r) = [''0002_b'']" by (simp add: defs)
  have v3: "map state (all_migrations (snd ?r)) = [''pending'', ''done'', ''pending'', ''pending'']"
    by (simp add: defs)
  have v4: "events (snd ?r)
     = [Logger L_error ''migrations_dependencies_not_satisfied''
          [(''id'', ''0001_a''), (''dependencies_id'', ''0003_c'')],
        Operation_start ''tools_migrations_migrate_forward'',
        Logger L_info ''migrations_running_forward'' [(''id'', ''0002_b'')],
        Run ''0002_b'',
        Logger L_success ''migrations_success_forward'' [(''id'', ''0002_b'')],
        Operation_success,
        Logger L_warn ''migrations_need_to_accept_disclaimer''
          [(''id'', ''0004_d''), (''disclaimer'', ''read this first'')],
        Logger L_error ''migrations_dependencies_not_satisfied''
          [(''id'', ''0001_a''), (''dependencies_id'', ''0003_c'')]]"
    by (simp add: defs)
  show ?thesis
    by (intro conjI 2 h0 h1 h3 s0 5 v1 v2 v3 v4 disclaimer_acceptance_single_use [OF 1 2 3 4 5 6])
qed

subsection \<open>A second run after a successful one\<close>

lemma yaml_kept_refl: "yaml_kept f f"
  by (simp add: yaml_kept_def)

lemma yaml_kept_trans: "yaml_kept f g \<Longrightarrow> yaml_kept g h \<Longrightarrow> yaml_kept f h"
  unfolding yaml_kept_def by metis

lemma yaml_kept_write:
  "st = ''done'' \<or> st = ''skipped'' \<Longrightarrow> yaml_kept f (write_migration_state i st f)"
  by (auto simp: yaml_kept_def write_migration_state_def tools_migrations_state_def)

lemma run_migration_yaml: "yaml_kept (migrations_yaml en) (migrations_yaml (run_migration t en))"
proof (cases "run (all_migrations en ! t) (sys en)")
  case (Pair r s)
  then show ?thesis
    by (cases r)
       (simp_all add: run_migration_def set_state_def log_event_def Let_def yaml_kept_refl
          yaml_kept_write)
qed

lemma skip_migration_yaml: "yaml_kept (migrations_yaml en) (migrations_yaml (skip_migration t en))"
  by (simp add: skip_migration_def set_state_def log_event_def Let_def yaml_kept_write)

lemma migrate_one_yaml:
  "migrate_one skip auto t en = (r, en') \<Longrightarrow> yaml_kept (migrations_yaml en) (migrations_yaml en')"
proof -
  have a: "migrations_yaml (log_event ev x) = migrations_yaml x" for ev and x :: "'a engine"
    by (simp add: log_event_def)
  have b: "yaml_kept (migrations_yaml en)
             (migrations_yaml (run_migration t (log_event ev (en\<lparr>accept_disclaimer := c\<rparr>))))" for ev c
    using run_migration_yaml [of "log_event ev (en\<lparr>accept_disclaimer := c\<rparr>)" t] by (simp add: a)
  have b': "yaml_kept (migrations_yaml en) (migrations_yaml (run_migration t (log_event ev en)))" for ev
    using run_migration_yaml [of "log_event ev en" t] by (simp add: a)
  have c: "yaml_kept (migrations_yaml en)
             (migrations_yaml (skip_migration t (log_event ev (en\<lparr>accept_disclaimer := c\<rparr>))))" for ev c
    using skip_migration_yaml [of "log_event ev (en\<lparr>accept_disclaimer := c\<rparr>)" t] by (simp add: a)
  have c': "yaml_kept (migrations_yaml en) (migrations_yaml (skip_migration t (log_event ev en)))" for ev
    using skip_migration_yaml [of "log_event ev en" t] by (simp add: a)
  assume "migrate_one skip auto t en = (r, en')"
  then show ?thesis
    by (auto simp: migrate_one_def Let_def a b b' c c' yaml_kept_refl
          split: if_splits sum.splits list.splits)
qed

lemma migrate_loop_yaml:
  "migrate_loop skip auto ts en = (r, en') \<Longrightarrow> yaml_kept (migrations_yaml en) (migrations_yaml en')"
proof (induction ts arbitrary: en)
  case Nil
  then show ?case by (simp add: yaml_kept_refl)
next
  case (Cons t ts)
  obtain r1 en1 where s: "migrate_one skip auto t en = (r1, en1)"
    by (cases "migrate_one skip auto t en")
  note k = migrate_one_yaml [OF s]
  show ?case
  proof (cases r1)
    case None
    then have "migrate_loop skip auto ts en1 = (r, en')" using Cons.prems s by simp
    then show ?thesis using Cons.IH k yaml_kept_trans by blast
  next
    case (Some e)
    then have "en' = en1" using Cons.prems s by simp
    then show ?thesis using k by simp
  qed
qed

lemma run_targets_yaml:
  "run_targets skip auto acc ms ts w = (r, w1) \<Longrightarrow> yaml_kept (w_yaml w) (w_yaml w1)"
proof (cases "ts = []")
  case True
  assume "run_targets skip auto acc ms ts w = (r, w1)"
  with True show ?thesis by (auto simp: run_targets_def yaml_kept_refl)
next
  case False
  assume a: "run_targets skip auto acc ms ts w = (r, w1)"
  obtain r' en' where l: "migrate_loop skip auto ts (start_engine ms acc w) = (r', en')"
    by (cases "migrate_loop skip auto ts (start_engine ms acc w)")
  with a False have "w1 = world_of en'" by (simp add: run_targets_def)
  then show ?thesis
    using migrate_loop_yaml [OF l] by (simp add: world_of_def start_engine_def)
qed

lemma tools_migrations_run_yaml:
  "tools_migrations_run reg targets skip auto force_rerun acc w = (r, w1) \<Longrightarrow>
   yaml_kept (w_yaml w) (w_yaml w1)"
  by (auto simp: tools_migrations_run_def Let_def yaml_kept_refl
        split: sum.splits if_splits dest: run_targets_yaml)

lemma load_all_state:
  "load_all reg sts xs = Inr ms \<Longrightarrow> m \<in> set ms \<Longrightarrow>
   state m = (case sts (mig_id m) of None \<Rightarrow> ''pending'' | Some s \<Rightarrow> s)"
proof (induction xs arbitrary: ms)
  case Nil
  then show ?case by simp
next
  case (Cons x xs)
  from Cons.prems(1) obtain m0 ms0 where
    l: "load_migration reg x = Inr m0" and r: "load_all reg sts xs = Inr ms0"
    and e: "ms = m0\<lparr>state := (case sts (mig_id m0) of None \<Rightarrow> ''pending'' | Some s \<Rightarrow> s)\<rparr> # ms0"
    by (auto split: sum.splits)
  show ?case
  proof (cases "m \<in> set ms0")
    case True
    then show ?thesis using Cons.IH r by blast
  next
    case False
    then have "m = m0\<lparr>state := (case sts (mig_id m0) of None \<Rightarrow> ''pending'' | Some s \<Rightarrow> s)\<rparr>"
      using Cons.prems(2) e by simp
    then show ?thesis by simp
  qed
qed

lemma load_all_ids:
  "load_all reg sts xs = Inr ms \<Longrightarrow>
   \<exists>ms'. load_all reg sts' xs = Inr ms' \<and> map mig_id ms' = map mig_id ms"
proof (induction xs arbitrary: ms)
  case Nil
  then show ?case by simp
next
  case (Cons x xs)
  from Cons.prems(1) obtain m0 ms0 where
    l: "load_migration reg x = Inr m0" and r: "load_all reg sts xs = Inr ms0"
    and e: "ms = m0\<lparr>state := (case sts (mig_id m0) of None \<Rightarrow> ''pending'' | Some s \<Rightarrow> s)\<rparr> # ms0"
    by (auto split: sum.splits)
  from Cons.IH [OF r] obtain ms0' where "load_all reg sts' xs = Inr ms0'"
    "map mig_id ms0' = map mig_id ms0" by blast
  then show ?case using l e by simp
qed

lemma get_migrations_list_state:
  "get_migrations_list reg f = Inr ms \<Longrightarrow> m \<in> set ms \<Longrightarrow>
   state m = (case tools_migrations_state f (mig_id m) of None \<Rightarrow> ''pending'' | Some s \<Rightarrow> s)"
  by (auto simp: get_migrations_list_def split: discovery.splits sum.splits dest: load_all_state)

lemma get_migrations_list_ids:
  assumes "get_migrations_list reg f = Inr ms"
  shows "\<exists>ms'. get_migrations_list reg f' = Inr ms' \<and> mig_id ` set ms' = mig_id ` set ms"
proof (cases "discovered reg")
  case (Listdir xs)
  with assms obtain ms0 where
    l: "load_all reg (tools_migrations_state f)
          (filter (migration_file_re (unicode_decimal reg)) xs) = Inr ms0"
    and e: "ms = sort_key mig_id ms0"
    by (auto simp: get_migrations_list_def split: sum.splits)
  from load_all_ids [OF l] obtain ms0' where
    l': "load_all reg (tools_migrations_state f')
           (filter (migration_file_re (unicode_decimal reg)) xs) = Inr ms0'"
    and i: "map mig_id ms0' = map mig_id ms0"
    by blast
  have "mig_id ` set ms0' = mig_id ` set ms0"
    using i by (metis set_map)
  then show ?thesis using Listdir l' e by (simp add: get_migrations_list_def)
qed (use assms in \<open>auto simp: get_migrations_list_def\<close>)

text \<open>
  Claim C9. A first run without targets (and so without \<^verbatim>\<open>skip\<close> and \<^verbatim>\<open>force_rerun\<close>) ends
  with every migration that was pending written as \<^verbatim>\<open>done\<close> in the state file. Then, on the
  same registry, no migration of the listing is pending, and a second run without targets
  and without flags only logs: what \<^verbatim>\<open>_get_migrations_list\<close> logs (nothing, unless the directory
  of the migrations is missing) and \<^verbatim>\<open>migrations_no_migrations_to_run\<close>. The machine and the
  state file are unchanged, and no error is raised.
\<close>

theorem second_run_is_noop:
  assumes "get_migrations_list reg (w_yaml w) = Inr ms"
    and "tools_migrations_run reg [] False auto False acc w = (r, w1)"
    and "\<forall>m \<in> set ms. state m = ''pending'' \<longrightarrow>
           tools_migrations_state (w_yaml w1) (mig_id m) = Some ''done''"
  shows "(\<exists>ms1. get_migrations_list reg (w_yaml w1) = Inr ms1 \<and>
            filter (\<lambda>i. state (ms1 ! i) = ''pending'') [0..<length ms1] = []) \<and>
         tools_migrations_run reg [] False False False False w1 =
           (None, w1\<lparr>w_events := w_events w1 @ get_migrations_list_log reg @
                                    [Logger L_info ''migrations_no_migrations_to_run'' []]\<rparr>)"
proof -
  from get_migrations_list_ids [OF assms(1)] obtain ms1 where
    l1: "get_migrations_list reg (w_yaml w1) = Inr ms1"
    and i1: "mig_id ` set ms1 = mig_id ` set ms"
    by blast
  have k: "yaml_kept (w_yaml w) (w_yaml w1)"
    using assms(2) by (rule tools_migrations_run_yaml)
  have np: "state m1 \<noteq> ''pending''" if "m1 \<in> set ms1" for m1
  proof -
    from that i1 obtain m where m: "m \<in> set ms" "mig_id m = mig_id m1" by (metis imageE imageI)
    have s1: "state m1 = (case tools_migrations_state (w_yaml w1) (mig_id m1) of
                 None \<Rightarrow> ''pending'' | Some s \<Rightarrow> s)"
      using get_migrations_list_state [OF l1 that] .
    have s: "state m = (case tools_migrations_state (w_yaml w) (mig_id m) of
                 None \<Rightarrow> ''pending'' | Some s \<Rightarrow> s)"
      using get_migrations_list_state [OF assms(1) m(1)] .
    show ?thesis
    proof (cases "state m = ''pending''")
      case True
      then have "tools_migrations_state (w_yaml w1) (mig_id m1) = Some ''done''"
        using assms(3) m by auto
      then show ?thesis using s1 by simp
    next
      case False
      from k have "tools_migrations_state (w_yaml w1) (mig_id m1) = tools_migrations_state (w_yaml w) (mig_id m1) \<or>
          tools_migrations_state (w_yaml w1) (mig_id m1) = Some ''done'' \<or>
          tools_migrations_state (w_yaml w1) (mig_id m1) = Some ''skipped''"
        by (simp add: yaml_kept_def)
      then show ?thesis using s s1 False m(2) by auto
    qed
  qed
  have e: "filter (\<lambda>i. state (ms1 ! i) = ''pending'') [0..<length ms1] = []"
    using np by (simp add: filter_empty_conv)
  have "tools_migrations_run reg [] False False False False w1 =
           (None, w1\<lparr>w_events := w_events w1 @ get_migrations_list_log reg @
                                    [Logger L_info ''migrations_no_migrations_to_run'' []]\<rparr>)"
    using l1 e by (simp add: tools_migrations_run_def run_targets_def Let_def)
  then show ?thesis using l1 e by blast
qed

text \<open>Claim C9 on \<^verbatim>\<open>0001_a\<close> (done), \<^verbatim>\<open>0002_b\<close> (skipped) and \<^verbatim>\<open>0003_c\<close> (pending): the first run
  runs \<^verbatim>\<open>0003_c\<close> and writes it as done, the second run has nothing to do. And on a registry
  whose directory is missing: each of the two runs logs the warning of the listing and that
  there is nothing to do.\<close>

theorem second_run_is_noop_witness:
  "fst (tools_migrations_run ex_three [] False False False False (ex_world ex_yaml)) = None \<and>
   w_sys (snd (tools_migrations_run ex_three [] False False False False (ex_world ex_yaml)))
     = [''0003_c''] \<and>
   tools_migrations_state
     (w_yaml (snd (tools_migrations_run ex_three [] False False False False (ex_world ex_yaml))))
     ''0003_c'' = Some ''done'' \<and>
   tools_migrations_run ex_three [] False False False False
     (snd (tools_migrations_run ex_three [] False False False False (ex_world ex_yaml))) =
     (None,
      (snd (tools_migrations_run ex_three [] False False False False (ex_world ex_yaml)))
        \<lparr>w_events :=
           w_events (snd (tools_migrations_run ex_three [] False False False False (ex_world ex_yaml)))
           @ [Logger L_info ''migrations_no_migrations_to_run'' []]\<rparr>) \<and>
   tools_migrations_run ex_no_directory [] False False False False
     (snd (tools_migrations_run ex_no_directory [] False False False False (ex_world None))) =
     (None,
      \<lparr> w_yaml = None, w_sys = [],
        w_events =
          [Logger L_warn ''migrations_cant_reach_migration_file''
             [([], ''/usr/lib/moulinette/yunohost/data_migrations'')],
           Logger L_info ''migrations_no_migrations_to_run'' [],
           Logger L_warn ''migrations_cant_reach_migration_file''
             [([], ''/usr/lib/moulinette/yunohost/data_migrations'')],
           Logger L_info ''migrations_no_migrations_to_run'' []] \<rparr>)"
proof -
  let ?R = "tools_migrations_run ex_three [] False False False False (ex_world ex_yaml)"
  let ?ms = "projr (get_migrations_list ex_three (w_yaml (ex_world ex_yaml)))"
  let ?N = "tools_migrations_run ex_no_directory [] False False False False (ex_world None)"
  note defs = ex_three_def ex_yaml_def ex_world_def ok_migration_def listing_defs engine_defs
    tools_migrations_run_def run_targets_def get_migrations_list_log_def ex_no_directory_def
  have 1: "get_migrations_list ex_three (w_yaml (ex_world ex_yaml)) = Inr ?ms"
    by (simp add: defs)
  have 2: "?R = (fst ?R, snd ?R)" by simp
  have v1: "fst ?R = None" by (simp add: defs)
  have v2: "w_sys (snd ?R) = [''0003_c'']" by (simp add: defs)
  have v3: "tools_migrations_state (w_yaml (snd ?R)) ''0003_c'' = Some ''done''" by (simp add: defs)
  have 3: "\<forall>m \<in> set ?ms. state m = ''pending'' \<longrightarrow>
           tools_migrations_state (w_yaml (snd ?R)) (mig_id m) = Some ''done''"
    by (simp add: defs)
  have g: "get_migrations_list_log ex_three = []"
    by (simp add: get_migrations_list_log_def ex_three_def)
  have c: "tools_migrations_run ex_three [] False False False False (snd ?R) =
     (None, (snd ?R)\<lparr>w_events := w_events (snd ?R) @ [Logger L_info ''migrations_no_migrations_to_run'' []]\<rparr>)"
    using conjunct2 [OF second_run_is_noop [OF 1 2 3]] by (simp only: g append_Nil)
  have n1: "get_migrations_list ex_no_directory (w_yaml (ex_world None)) = Inr []"
    by (simp add: defs)
  have n2: "?N = (fst ?N, snd ?N)" by simp
  have n3: "\<forall>m \<in> set ([] :: string list migration list). state m = ''pending'' \<longrightarrow>
           tools_migrations_state (w_yaml (snd ?N)) (mig_id m) = Some ''done''"
    by simp
  have n4: "snd ?N = \<lparr> w_yaml = None, w_sys = [],
        w_events =
          [Logger L_warn ''migrations_cant_reach_migration_file''
             [([], ''/usr/lib/moulinette/yunohost/data_migrations'')],
           Logger L_info ''migrations_no_migrations_to_run'' []] \<rparr>"
    by (simp add: defs)
  have n5: "get_migrations_list_log ex_no_directory =
          [Logger L_warn ''migrations_cant_reach_migration_file''
             [([], ''/usr/lib/moulinette/yunohost/data_migrations'')]]"
    by (simp add: get_migrations_list_log_def ex_no_directory_def)
  have d: "tools_migrations_run ex_no_directory [] False False False False (snd ?N) =
     (None,
      \<lparr> w_yaml = None, w_sys = [],
        w_events =
          [Logger L_warn ''migrations_cant_reach_migration_file''
             [([], ''/usr/lib/moulinette/yunohost/data_migrations'')],
           Logger L_info ''migrations_no_migrations_to_run'' [],
           Logger L_warn ''migrations_cant_reach_migration_file''
             [([], ''/usr/lib/moulinette/yunohost/data_migrations'')],
           Logger L_info ''migrations_no_migrations_to_run'' []] \<rparr>)"
    using conjunct2 [OF second_run_is_noop [OF n1 n2 n3]] by (simp add: n4 n5)
  show ?thesis
    by (intro conjI v1 v2 v3 c d)
qed

subsection \<open>The service is started on every path\<close>

lemma slapd_after_append: "slapd_after b (xs @ ys) = slapd_after (slapd_after b xs) ys"
  by (induction b xs rule: slapd_after.induct) simp_all

lemma trace_os_system: "trace (os_system sh c st) = trace st @ [System c]"
  by (simp add: os_system_def)

lemma ldap_backup_trace:
  "\<exists>acts. trace (snd (ldap_backup sh now st)) = trace st @ acts \<and> slapd_after b acts \<and>
          System (Systemctl_start ''slapd'') \<in> set acts"
proof (cases "makedirs sh (backup_folder_at now) (os st)")
  case (Pair r w)
  then show ?thesis
    by (cases r) (simp_all add: ldap_backup_def Let_def logged_def trace_os_system)
qed

lemma ldap_rollback_trace:
  "\<exists>acts. trace (ldap_rollback sh bf st) = trace st @ acts \<and> slapd_after b acts"
  by (simp add: ldap_rollback_def Let_def logged_def trace_os_system)

text \<open>The log of the decorator: whatever \<^verbatim>\<open>os.makedirs\<close>, the commands and the wrapped body
  do, the decorator calls \<^verbatim>\<open>systemctl start slapd\<close>, and its last \<^verbatim>\<open>systemctl\<close> command on
  \<^verbatim>\<open>slapd\<close> is a start.\<close>

lemma ldap_migration_trace:
  "\<exists>acts. trace (snd (ldap_migration sh now body st)) = trace st @ acts \<and>
          slapd_after b acts \<and>
          System (Systemctl_start ''slapd'') \<in> set acts"
proof -
  obtain r1 st1 where b1: "ldap_backup sh now st = (r1, st1)"
    by (cases "ldap_backup sh now st")
  from ldap_backup_trace [of sh now st b] b1
  obtain acts1 where a1: "trace st1 = trace st @ acts1" "slapd_after b acts1"
    "System (Systemctl_start ''slapd'') \<in> set acts1"
    by auto
  show ?thesis
  proof (cases r1)
    case (Some e)
    then show ?thesis using b1 a1 by (simp add: ldap_migration_def)
  next
    case None
    let ?bf = "backup_folder_at now"
    let ?st2 = "st1\<lparr>trace := trace st1 @ [Call_run ?bf]\<rparr>"
    obtain r2 w where b2: "body ?bf (os ?st2) = (r2, w)"
      by (cases "body ?bf (os ?st2)")
    show ?thesis
    proof (cases r2)
      case None
      have "trace (snd (ldap_migration sh now body st))
              = trace st @ (acts1 @ [Call_run ?bf, System (Rm_r ?bf)])"
        using b1 b2 \<open>r1 = None\<close> None a1(1)
        by (simp add: ldap_migration_def Let_def trace_os_system)
      moreover have "slapd_after b (acts1 @ [Call_run ?bf, System (Rm_r ?bf)])"
        using a1(2) by (simp add: slapd_after_append)
      moreover have "System (Systemctl_start ''slapd'') \<in> set (acts1 @ [Call_run ?bf, System (Rm_r ?bf)])"
        using a1(3) by simp
      ultimately show ?thesis by blast
    next
      case (Some e)
      from ldap_rollback_trace [of sh ?bf "?st2\<lparr>os := w\<rparr>" True]
      obtain acts2 where a2: "trace (ldap_rollback sh ?bf (?st2\<lparr>os := w\<rparr>))
           = trace st1 @ [Call_run ?bf] @ acts2" "slapd_after True acts2"
        by auto
      have "trace (snd (ldap_migration sh now body st)) = trace st @ (acts1 @ [Call_run ?bf] @ acts2)"
        using b1 b2 \<open>r1 = None\<close> Some a1(1) a2(1)
        by (simp add: ldap_migration_def Let_def)
      moreover have "slapd_after b (acts1 @ [Call_run ?bf] @ acts2)"
        using a1(2) a2(2) by (simp add: slapd_after_append)
      moreover have "System (Systemctl_start ''slapd'') \<in> set (acts1 @ [Call_run ?bf] @ acts2)"
        using a1(3) by simp
      ultimately show ?thesis by blast
    qed
  qed
qed

text \<open>
  Claim C7, as amended. Each \<^verbatim>\<open>systemctl stop slapd\<close> of the decorator is followed by a
  \<^verbatim>\<open>systemctl start slapd\<close> of the decorator before it returns or raises: after the backup,
  whether \<^verbatim>\<open>os.makedirs\<close> raised or not and whatever the copies did (the \<^verbatim>\<open>finally\<close> clause),
  and at the end of the rollback, whatever its commands did (\<^verbatim>\<open>os.system\<close> does not raise).
  After a body that returns, the decorator runs \<^verbatim>\<open>rm -r\<close> only, no command on the service.
  So, on a machine where \<^verbatim>\<open>systemctl start slapd\<close> brings the service up (\<open>up\<close>) and \<^verbatim>\<open>rm -r\<close>
  leaves it as it is:
  \<^item> when the backup fails, the decorator raises and the service is up;
  \<^item> when the backup is taken, the service is up when the body is called;
  \<^item> when the body raises \<open>e\<close>, the decorator raises \<open>e\<close> and the service is up;
  \<^item> when the body returns, the decorator returns and the service is as the body left it.
\<close>

theorem slapd_up_after_wrapper:
  assumes "\<forall>w. up (system sh (Systemctl_start ''slapd'') w)"
    and "\<forall>p w. up (system sh (Rm_r p) w) = up w"
  shows
    "(\<exists>acts. trace (snd (ldap_migration sh now body st)) = trace st @ acts \<and>
          slapd_after b acts \<and> System (Systemctl_start ''slapd'') \<in> set acts) \<and>
     (fst (ldap_backup sh now st) \<noteq> None \<longrightarrow>
        ldap_migration sh now body st = ldap_backup sh now st \<and>
        up (os (snd (ldap_migration sh now body st)))) \<and>
     (fst (ldap_backup sh now st) = None \<longrightarrow> up (os (snd (ldap_backup sh now st)))) \<and>
     (\<forall>e w. fst (ldap_backup sh now st) = None \<and>
        body (backup_folder_at now) (os (snd (ldap_backup sh now st))) = (Some e, w) \<longrightarrow>
        fst (ldap_migration sh now body st) = Some e \<and>
        up (os (snd (ldap_migration sh now body st)))) \<and>
     (\<forall>w. fst (ldap_backup sh now st) = None \<and>
        body (backup_folder_at now) (os (snd (ldap_backup sh now st))) = (None, w) \<longrightarrow>
        fst (ldap_migration sh now body st) = None \<and>
        up (os (snd (ldap_migration sh now body st))) = up w)"
proof -
  obtain r1 st1 where b1: "ldap_backup sh now st = (r1, st1)"
    by (cases "ldap_backup sh now st")
  have u1: "up (os st1)"
  proof (cases "makedirs sh (backup_folder_at now) (os st)")
    case (Pair rm wm)
    then show ?thesis
      using b1 assms(1)
      by (cases rm) (auto simp: ldap_backup_def Let_def logged_def os_system_def)
  qed
  have t: "\<exists>acts. trace (snd (ldap_migration sh now body st)) = trace st @ acts \<and>
          slapd_after b acts \<and> System (Systemctl_start ''slapd'') \<in> set acts"
    by (rule ldap_migration_trace)
  have f: "r1 \<noteq> None \<longrightarrow> ldap_migration sh now body st = (r1, st1)"
    using b1 by (auto simp: ldap_migration_def)
  have g: "fst (ldap_migration sh now body st) = Some e \<and>
           up (os (snd (ldap_migration sh now body st)))"
    if "r1 = None" "body (backup_folder_at now) (os st1) = (Some e, w)" for e w
    using that b1 assms
    by (simp add: ldap_migration_def ldap_rollback_def Let_def logged_def os_system_def)
  have h: "fst (ldap_migration sh now body st) = None \<and>
           up (os (snd (ldap_migration sh now body st))) = up w"
    if "r1 = None" "body (backup_folder_at now) (os st1) = (None, w)" for w
    using that b1 assms
    by (simp add: ldap_migration_def Let_def os_system_def)
  show ?thesis
    using t u1 f g h by (simp add: b1)
qed

text \<open>
  Claim C7, as stated, fails: the service is up, the backup is taken, and the body stops
  \<^verbatim>\<open>slapd\<close> and returns. After the call of the body the decorator runs \<^verbatim>\<open>rm -r\<close> only: no
  start follows the successful body, and the decorator returns with the service down.
\<close>

theorem slapd_left_stopped_counterexample:
  "slapd_up (os ex_service_machine) \<and>
   fst (ldap_migration (machine_shell None) ''20210101-120000'' ex_stopping_body ex_service_machine)
     = None \<and>
   \<not> slapd_up (os (snd (ldap_migration (machine_shell None) ''20210101-120000'' ex_stopping_body
                           ex_service_machine))) \<and>
   trace (snd (ldap_migration (machine_shell None) ''20210101-120000'' ex_stopping_body
                 ex_service_machine)) =
     [Log L_info ''migration_ldap_backup_before_migration'',
      Makedirs (backup_folder_at ''20210101-120000''),
      System (Systemctl_stop ''slapd''),
      System (Cp_r etc_ldap (backup_folder_at ''20210101-120000'' @ [''ldap_config''])),
      System (Cp_r var_lib_ldap (backup_folder_at ''20210101-120000'' @ [''ldap_db''])),
      System (Cp_r etc_yunohost_apps (backup_folder_at ''20210101-120000'' @ [''apps_settings''])),
      System (Systemctl_start ''slapd''),
      Call_run (backup_folder_at ''20210101-120000''),
      System (Rm_r (backup_folder_at ''20210101-120000''))]"
  by (simp add: ldap_migration_def ldap_backup_def machine_shell_def ex_stopping_body_def
        ex_service_machine_def os_system_def logged_def Let_def)

text \<open>The amended claim C7 on that machine: with a body that stops the service and raises,
  and with \<^verbatim>\<open>os.makedirs\<close> raising, the decorator raises with the service up; with the body
  that stops the service and returns, the service is as the body left it, down.\<close>

theorem slapd_up_after_wrapper_witness:
  "fst (ldap_migration (machine_shell None) ''20210101-120000'' ex_stop_and_raise ex_service_machine)
     = Some (Exception ''boom'') \<and>
   slapd_up (os (snd (ldap_migration (machine_shell None) ''20210101-120000'' ex_stop_and_raise
                        ex_service_machine))) \<and>
   fst (ldap_migration (machine_shell (Some (Exception ''File exists''))) ''20210101-120000''
          ex_stop_and_raise (ex_service_machine\<lparr>os := (os ex_service_machine)\<lparr>slapd_up := False\<rparr>\<rparr>))
     = Some (YunohostError ''migration_ldap_can_not_backup_before_migration''
               [(''error'', ''File exists'')]) \<and>
   slapd_up (os (snd (ldap_migration (machine_shell (Some (Exception ''File exists'')))
                        ''20210101-120000'' ex_stop_and_raise
                        (ex_service_machine\<lparr>os := (os ex_service_machine)\<lparr>slapd_up := False\<rparr>\<rparr>)))) \<and>
   fst (ldap_migration (machine_shell None) ''20210101-120000'' ex_stopping_body ex_service_machine)
     = None \<and>
   slapd_up (os (snd (ldap_migration (machine_shell None) ''20210101-120000'' ex_stopping_body
                        ex_service_machine)))
     = slapd_up (snd (ex_stopping_body (backup_folder_at ''20210101-120000'')
                        (os (snd (ldap_backup (machine_shell None) ''20210101-120000''
                                    ex_service_machine)))))"
proof -
  let ?now = "''20210101-120000''"
  let ?bf = "backup_folder_at ?now"
  let ?st = ex_service_machine
  let ?st' = "ex_service_machine\<lparr>os := (os ex_service_machine)\<lparr>slapd_up := False\<rparr>\<rparr>"
  let ?sh = "machine_shell None"
  let ?sh' = "machine_shell (Some (Exception ''File exists''))"
  let ?B = "ldap_backup ?sh ?now ?st"
  have s1: "\<forall>w. slapd_up (system (machine_shell mk) (Systemctl_start ''slapd'') w)" for mk
    by (simp add: machine_shell_def)
  have s2: "\<forall>p w. slapd_up (system (machine_shell mk) (Rm_r p) w) = slapd_up w" for mk
    by (simp add: machine_shell_def)
  have ok: "fst ?B = None"
    by (simp add: ldap_backup_def machine_shell_def Let_def)
  have ko: "fst (ldap_backup ?sh' ?now ?st')
              = Some (YunohostError ''migration_ldap_can_not_backup_before_migration''
                        [(''error'', ''File exists'')])"
    by (simp add: ldap_backup_def machine_shell_def Let_def logged_def)
  have b1: "ex_stop_and_raise ?bf (os (snd ?B))
              = (Some (Exception ''boom''), snd (ex_stop_and_raise ?bf (os (snd ?B))))"
    by (simp add: ex_stop_and_raise_def)
  have b2: "ex_stopping_body ?bf (os (snd ?B)) = (None, snd (ex_stopping_body ?bf (os (snd ?B))))"
    by (simp add: ex_stopping_body_def)
  note t1 = slapd_up_after_wrapper [OF s1 s2, of None ?now ex_stop_and_raise ?st True]
  note t2 = slapd_up_after_wrapper [OF s1 s2, of "Some (Exception ''File exists'')" ?now
              ex_stop_and_raise ?st' True]
  note t3 = slapd_up_after_wrapper [OF s1 s2, of None ?now ex_stopping_body ?st True]
  have a: "fst (ldap_migration ?sh ?now ex_stop_and_raise ?st) = Some (Exception ''boom'') \<and>
           slapd_up (os (snd (ldap_migration ?sh ?now ex_stop_and_raise ?st)))"
    using t1 ok b1 by blast
  have b: "ldap_migration ?sh' ?now ex_stop_and_raise ?st' = ldap_backup ?sh' ?now ?st' \<and>
           slapd_up (os (snd (ldap_migration ?sh' ?now ex_stop_and_raise ?st')))"
  proof -
    have "fst (ldap_backup ?sh' ?now ?st') \<noteq> None" using ko by simp
    then show ?thesis using t2 by blast
  qed
  have c: "fst (ldap_migration ?sh ?now ex_stopping_body ?st) = None \<and>
           slapd_up (os (snd (ldap_migration ?sh ?now ex_stopping_body ?st)))
             = slapd_up (snd (ex_stopping_body ?bf (os (snd ?B))))"
    using t3 ok b2 by blast
  have b': "fst (ldap_migration ?sh' ?now ex_stop_and_raise ?st')
              = Some (YunohostError ''migration_ldap_can_not_backup_before_migration''
                        [(''error'', ''File exists'')])"
    by (simp only: conjunct1 [OF b] ko)
  show ?thesis
    by (intro conjI conjunct1 [OF a] conjunct2 [OF a] b' conjunct2 [OF b]
          conjunct1 [OF c] conjunct2 [OF c])
qed

subsection \<open>What the rollback restores\<close>

lemma backup_copies:
  assumes "\<forall>p. prefix (backup_folder_at now) p \<longrightarrow> f0 p = None"
  shows "os (snd (ldap_backup (files_shell None) now \<lparr>trace = tr, os = f0\<rparr>))
           (backup_folder_at now @ [''ldap_config''] @ q) = f0 (etc_ldap @ q)"
    and "os (snd (ldap_backup (files_shell None) now \<lparr>trace = tr, os = f0\<rparr>))
           (backup_folder_at now @ [''ldap_db''] @ q) = f0 (var_lib_ldap @ q)"
    and "os (snd (ldap_backup (files_shell None) now \<lparr>trace = tr, os = f0\<rparr>))
           (backup_folder_at now @ [''apps_settings''] @ q) = f0 (etc_yunohost_apps @ q)"
proof -
  have n: "f0 (backup_folder_at now @ x) = None" for x
    using assms by simp
  show "os (snd (ldap_backup (files_shell None) now \<lparr>trace = tr, os = f0\<rparr>))
           (backup_folder_at now @ [''ldap_config''] @ q) = f0 (etc_ldap @ q)"
    using n [of "[''ldap_config''] @ q"]
    by (simp add: ldap_backup_def files_shell_def os_system_def logged_def Let_def cp_r_def
          backup_folder_at_def etc_ldap_def var_lib_ldap_def etc_yunohost_apps_def
          split: option.splits)
  show "os (snd (ldap_backup (files_shell None) now \<lparr>trace = tr, os = f0\<rparr>))
           (backup_folder_at now @ [''ldap_db''] @ q) = f0 (var_lib_ldap @ q)"
    using n [of "[''ldap_db''] @ q"]
    by (simp add: ldap_backup_def files_shell_def os_system_def logged_def Let_def cp_r_def
          backup_folder_at_def etc_ldap_def var_lib_ldap_def etc_yunohost_apps_def
          split: option.splits)
  show "os (snd (ldap_backup (files_shell None) now \<lparr>trace = tr, os = f0\<rparr>))
           (backup_folder_at now @ [''apps_settings''] @ q) = f0 (etc_yunohost_apps @ q)"
    using n [of "[''apps_settings''] @ q"]
    by (simp add: ldap_backup_def files_shell_def os_system_def logged_def Let_def cp_r_def
          backup_folder_at_def etc_ldap_def var_lib_ldap_def etc_yunohost_apps_def
          split: option.splits)
qed

lemmas path_defs = backup_folder_at_def etc_ldap_def var_lib_ldap_def etc_yunohost_apps_def

lemma ldap_backup_ok:
  "fst (ldap_backup (files_shell None) now st) = None \<and>
   trace (snd (ldap_backup (files_shell None) now st)) = trace st @
     [Log L_info ''migration_ldap_backup_before_migration'',
      Makedirs (backup_folder_at now),
      System (Systemctl_stop ''slapd''),
      System (Cp_r etc_ldap (backup_folder_at now @ [''ldap_config''])),
      System (Cp_r var_lib_ldap (backup_folder_at now @ [''ldap_db''])),
      System (Cp_r etc_yunohost_apps (backup_folder_at now @ [''apps_settings''])),
      System (Systemctl_start ''slapd'')]"
  by (simp add: ldap_backup_def files_shell_def os_system_def logged_def Let_def)

lemma ldap_rollback_files:
  "os (ldap_rollback (files_shell mk) bf st) =
     rm_r bf
       (cp_r (bf @ [''apps_settings'']) etc_yunohost_apps
          (cp_r (bf @ [''ldap_db'']) var_lib_ldap
             (cp_r (bf @ [''ldap_config'']) etc_ldap
                (rm_r (etc_ldap @ [''slapd.d'']) (os st)))))"
  by (simp add: ldap_rollback_def files_shell_def os_system_def logged_def Let_def)

lemma ldap_rollback_trace_files:
  "trace (ldap_rollback sh bf st) = trace st @
     [Log L_warn ''migration_ldap_migration_failed_trying_to_rollback'',
      System (Systemctl_stop ''slapd''),
      System (Rm_r (etc_ldap @ [''slapd.d''])),
      System (Cp_r_contents (bf @ [''ldap_config'']) etc_ldap),
      System (Cp_r_contents (bf @ [''ldap_db'']) var_lib_ldap),
      System (Cp_r_contents (bf @ [''apps_settings'']) etc_yunohost_apps),
      System (Systemctl_start ''slapd''),
      System (Rm_r bf),
      Log L_info ''migration_ldap_rollback_success'']"
  by (simp add: ldap_rollback_def os_system_def logged_def Let_def)

lemma ldap_migration_failure:
  assumes "body (backup_folder_at now) (os (snd (ldap_backup (files_shell None) now st))) = (Some e, f2)"
  shows "ldap_migration (files_shell None) now body st =
           (Some e,
            ldap_rollback (files_shell None) (backup_folder_at now)
              \<lparr>trace = trace (snd (ldap_backup (files_shell None) now st)) @ [Call_run (backup_folder_at now)],
               os = f2\<rparr>)"
proof -
  obtain st1 where b: "ldap_backup (files_shell None) now st = (None, st1)"
    using ldap_backup_ok [of now st] by (cases "ldap_backup (files_shell None) now st") auto
  then show ?thesis using assms by (cases st1) (simp add: ldap_migration_def Let_def)
qed

lemma restored_files:
  fixes f0 f1 f2 :: files
  assumes fresh: "\<forall>p. prefix (backup_folder_at now) p \<longrightarrow> f0 p = None"
    and f1: "f1 = os (snd (ldap_backup (files_shell None) now \<lparr>trace = tr, os = f0\<rparr>))"
    and keeps: "\<forall>p. prefix (backup_folder_at now) p \<longrightarrow> f2 p = f1 p"
    and fin: "fin = rm_r (backup_folder_at now)
       (cp_r (backup_folder_at now @ [''apps_settings'']) etc_yunohost_apps
          (cp_r (backup_folder_at now @ [''ldap_db'']) var_lib_ldap
             (cp_r (backup_folder_at now @ [''ldap_config'']) etc_ldap
                (rm_r (etc_ldap @ [''slapd.d'']) f2))))"
  shows "fin (etc_ldap @ q) =
           (case f0 (etc_ldap @ q) of Some c \<Rightarrow> Some c
            | None \<Rightarrow> if prefix [''slapd.d''] q then None else f2 (etc_ldap @ q))"
    and "fin (var_lib_ldap @ q) =
           (case f0 (var_lib_ldap @ q) of Some c \<Rightarrow> Some c | None \<Rightarrow> f2 (var_lib_ldap @ q))"
    and "fin (etc_yunohost_apps @ q) =
           (case f0 (etc_yunohost_apps @ q) of Some c \<Rightarrow> Some c | None \<Rightarrow> f2 (etc_yunohost_apps @ q))"
    and "prefix (backup_folder_at now) p \<Longrightarrow> fin p = None"
    and "\<not> watched p \<Longrightarrow> \<not> prefix (backup_folder_at now) p \<Longrightarrow> fin p = f2 p"
proof -
  have k: "f2 (backup_folder_at now @ x) = f1 (backup_folder_at now @ x)" for x
    using keeps by simp
  note c = backup_copies [OF fresh, of tr q, folded f1]
  have c1: "f2 (''home'' # ''yunohost.backup'' # ''premigration'' # now # ''ldap_config'' # q)
              = f0 (etc_ldap @ q)"
    using k [of "[''ldap_config''] @ q"] c(1) by (simp add: backup_folder_at_def)
  have c2: "f2 (''home'' # ''yunohost.backup'' # ''premigration'' # now # ''ldap_db'' # q)
              = f0 (var_lib_ldap @ q)"
    using k [of "[''ldap_db''] @ q"] c(2) by (simp add: backup_folder_at_def)
  have c3: "f2 (''home'' # ''yunohost.backup'' # ''premigration'' # now # ''apps_settings'' # q)
              = f0 (etc_yunohost_apps @ q)"
    using k [of "[''apps_settings''] @ q"] c(3) by (simp add: backup_folder_at_def)
  show "fin (etc_ldap @ q) =
           (case f0 (etc_ldap @ q) of Some c \<Rightarrow> Some c
            | None \<Rightarrow> if prefix [''slapd.d''] q then None else f2 (etc_ldap @ q))"
    using c1 by (simp add: fin rm_r_def cp_r_def path_defs split: option.splits)
  show "fin (var_lib_ldap @ q) =
           (case f0 (var_lib_ldap @ q) of Some c \<Rightarrow> Some c | None \<Rightarrow> f2 (var_lib_ldap @ q))"
    using c2 by (simp add: fin rm_r_def cp_r_def path_defs split: option.splits)
  show "fin (etc_yunohost_apps @ q) =
           (case f0 (etc_yunohost_apps @ q) of Some c \<Rightarrow> Some c | None \<Rightarrow> f2 (etc_yunohost_apps @ q))"
    using c3 by (simp add: fin rm_r_def cp_r_def path_defs split: option.splits)
  show "prefix (backup_folder_at now) p \<Longrightarrow> fin p = None"
    by (simp add: fin rm_r_def)
  show "\<not> watched p \<Longrightarrow> \<not> prefix (backup_folder_at now) p \<Longrightarrow> fin p = f2 p"
  proof -
    assume w: "\<not> watched p" and b: "\<not> prefix (backup_folder_at now) p"
    have "\<not> prefix (etc_ldap @ [''slapd.d'']) p"
      using w by (auto simp: watched_def prefix_def)
    then show "fin p = f2 p"
      using w b by (simp add: fin rm_r_def cp_r_def watched_def)
  qed
qed

text \<open>
  Claim C2, as amended. The backup was taken into a new folder, the wrapped body raises the
  exception \<open>e\<close> after changing the files to \<open>f2\<close>, without touching the backup folder,
  and every command succeeds. Then the decorator raises \<open>e\<close> itself, and its rollback is:
  stop the service, erase \<^verbatim>\<open>/etc/ldap/slapd.d\<close> (no other part of the trees), copy the three
  backups back over \<^verbatim>\<open>/etc/ldap\<close>, \<^verbatim>\<open>/var/lib/ldap\<close> and \<^verbatim>\<open>/etc/yunohost/apps\<close>, start the
  service, delete the backup folder. Afterwards
  \<^item> every file that the three trees held before the migration has the content it had;
  \<^item> \<^verbatim>\<open>/etc/ldap/slapd.d\<close> is what it was before the migration;
  \<^item> a file that the body created in the trees outside \<^verbatim>\<open>/etc/ldap/slapd.d\<close> is still there;
  \<^item> the backup folder is gone, and the files outside the trees are as the body left them.
\<close>

theorem ldap_rollback_restores_backup:
  assumes "\<forall>p. prefix (backup_folder_at now) p \<longrightarrow> f0 p = None"
    and "body (backup_folder_at now)
           (os (snd (ldap_backup (files_shell None) now \<lparr>trace = tr, os = f0\<rparr>))) = (Some e, f2)"
    and "\<forall>p. prefix (backup_folder_at now) p \<longrightarrow>
           f2 p = os (snd (ldap_backup (files_shell None) now \<lparr>trace = tr, os = f0\<rparr>)) p"
  shows
    "fst (ldap_migration (files_shell None) now body \<lparr>trace = tr, os = f0\<rparr>) = Some e \<and>
     trace (snd (ldap_migration (files_shell None) now body \<lparr>trace = tr, os = f0\<rparr>)) = tr @
       [Log L_info ''migration_ldap_backup_before_migration'',
        Makedirs (backup_folder_at now),
        System (Systemctl_stop ''slapd''),
        System (Cp_r etc_ldap (backup_folder_at now @ [''ldap_config''])),
        System (Cp_r var_lib_ldap (backup_folder_at now @ [''ldap_db''])),
        System (Cp_r etc_yunohost_apps (backup_folder_at now @ [''apps_settings''])),
        System (Systemctl_start ''slapd''),
        Call_run (backup_folder_at now),
        Log L_warn ''migration_ldap_migration_failed_trying_to_rollback'',
        System (Systemctl_stop ''slapd''),
        System (Rm_r (etc_ldap @ [''slapd.d''])),
        System (Cp_r_contents (backup_folder_at now @ [''ldap_config'']) etc_ldap),
        System (Cp_r_contents (backup_folder_at now @ [''ldap_db'']) var_lib_ldap),
        System (Cp_r_contents (backup_folder_at now @ [''apps_settings'']) etc_yunohost_apps),
        System (Systemctl_start ''slapd''),
        System (Rm_r (backup_folder_at now)),
        Log L_info ''migration_ldap_rollback_success''] \<and>
     (\<forall>p. watched p \<and> f0 p \<noteq> None \<longrightarrow>
        os (snd (ldap_migration (files_shell None) now body \<lparr>trace = tr, os = f0\<rparr>)) p = f0 p) \<and>
     (\<forall>p. prefix (etc_ldap @ [''slapd.d'']) p \<longrightarrow>
        os (snd (ldap_migration (files_shell None) now body \<lparr>trace = tr, os = f0\<rparr>)) p = f0 p) \<and>
     (\<forall>p. watched p \<and> f0 p = None \<and> \<not> prefix (etc_ldap @ [''slapd.d'']) p \<longrightarrow>
        os (snd (ldap_migration (files_shell None) now body \<lparr>trace = tr, os = f0\<rparr>)) p = f2 p) \<and>
     (\<forall>p. prefix (backup_folder_at now) p \<longrightarrow>
        os (snd (ldap_migration (files_shell None) now body \<lparr>trace = tr, os = f0\<rparr>)) p = None) \<and>
     (\<forall>p. \<not> watched p \<and> \<not> prefix (backup_folder_at now) p \<longrightarrow>
        os (snd (ldap_migration (files_shell None) now body \<lparr>trace = tr, os = f0\<rparr>)) p = f2 p)"
proof -
  let ?st = "\<lparr>trace = tr, os = f0\<rparr>"
  let ?R = "ldap_migration (files_shell None) now body ?st"
  let ?bf = "backup_folder_at now"
  define f1 where "f1 = os (snd (ldap_backup (files_shell None) now ?st))"
  define fin where "fin = os (snd ?R)"
  have m: "?R = (Some e,
            ldap_rollback (files_shell None) ?bf
              \<lparr>trace = trace (snd (ldap_backup (files_shell None) now ?st)) @ [Call_run ?bf],
               os = f2\<rparr>)"
    using assms(2) by (rule ldap_migration_failure [of body now ?st e f2])
  have r: "fst ?R = Some e" using m by simp
  have t: "trace (snd ?R) = tr @
       [Log L_info ''migration_ldap_backup_before_migration'',
        Makedirs ?bf,
        System (Systemctl_stop ''slapd''),
        System (Cp_r etc_ldap (?bf @ [''ldap_config''])),
        System (Cp_r var_lib_ldap (?bf @ [''ldap_db''])),
        System (Cp_r etc_yunohost_apps (?bf @ [''apps_settings''])),
        System (Systemctl_start ''slapd''),
        Call_run ?bf,
        Log L_warn ''migration_ldap_migration_failed_trying_to_rollback'',
        System (Systemctl_stop ''slapd''),
        System (Rm_r (etc_ldap @ [''slapd.d''])),
        System (Cp_r_contents (?bf @ [''ldap_config'']) etc_ldap),
        System (Cp_r_contents (?bf @ [''ldap_db'']) var_lib_ldap),
        System (Cp_r_contents (?bf @ [''apps_settings'']) etc_yunohost_apps),
        System (Systemctl_start ''slapd''),
        System (Rm_r ?bf),
        Log L_info ''migration_ldap_rollback_success'']"
    using ldap_backup_ok [of now ?st] by (simp add: m ldap_rollback_trace_files)
  have fin: "fin = rm_r ?bf
       (cp_r (?bf @ [''apps_settings'']) etc_yunohost_apps
          (cp_r (?bf @ [''ldap_db'']) var_lib_ldap
             (cp_r (?bf @ [''ldap_config'']) etc_ldap
                (rm_r (etc_ldap @ [''slapd.d'']) f2))))"
    by (simp add: fin_def m ldap_rollback_files)
  have keeps: "\<forall>p. prefix ?bf p \<longrightarrow> f2 p = f1 p"
    using assms(3) by (simp add: f1_def)
  note rf = restored_files [OF assms(1) f1_def keeps fin]
  have a: "fin p = f0 p" if "watched p" "f0 p \<noteq> None" for p
  proof -
    from that(1) consider q where "p = etc_ldap @ q" | q where "p = var_lib_ldap @ q"
      | q where "p = etc_yunohost_apps @ q"
      by (auto simp: watched_def prefix_def)
    then show ?thesis
      using that(2) rf(1,2,3) by cases auto
  qed
  have b: "fin p = f0 p" if "prefix (etc_ldap @ [''slapd.d'']) p" for p
  proof -
    from that obtain q where "p = etc_ldap @ (''slapd.d'' # q)"
      by (auto simp: prefix_def)
    then show ?thesis
      using rf(1) [of "''slapd.d'' # q"] by (simp split: option.splits)
  qed
  have c: "fin p = f2 p" if "watched p" "f0 p = None" "\<not> prefix (etc_ldap @ [''slapd.d'']) p" for p
  proof -
    from that(1) consider q where "p = etc_ldap @ q" | q where "p = var_lib_ldap @ q"
      | q where "p = etc_yunohost_apps @ q"
      by (auto simp: watched_def prefix_def)
    then show ?thesis
      using that(2,3) rf(1,2,3) by cases auto
  qed
  have d: "fin p = None" if "prefix ?bf p" for p
    using that by (rule rf(4))
  have e: "fin p = f2 p" if "\<not> watched p" "\<not> prefix ?bf p" for p
    using that by (rule rf(5))
  show ?thesis
    using r t a b c d e unfolding fin_def by (intro conjI) blast+
qed

text \<open>
  Claim C2, as stated, fails: the body creates \<^verbatim>\<open>/var/lib/ldap/lock.mdb\<close> and raises. The
  rollback erases \<^verbatim>\<open>/etc/ldap/slapd.d\<close> only, none of the three trees, and after it the new
  file is still in \<^verbatim>\<open>/var/lib/ldap\<close>, which did not hold it before the migration.
\<close>

theorem ldap_rollback_not_identical_counterexample:
  "fst (ldap_migration (files_shell None) ''20210101-120000'' ex_body ex_machine)
     = Some (Exception ''boom'') \<and>
   watched [''var'', ''lib'', ''ldap'', ''lock.mdb''] \<and>
   os ex_machine [''var'', ''lib'', ''ldap'', ''lock.mdb''] = None \<and>
   os (snd (ldap_migration (files_shell None) ''20210101-120000'' ex_body ex_machine))
     [''var'', ''lib'', ''ldap'', ''lock.mdb''] = Some ''left behind'' \<and>
   System (Rm_r (etc_ldap @ [''slapd.d'']))
     \<in> set (trace (snd (ldap_migration (files_shell None) ''20210101-120000'' ex_body ex_machine))) \<and>
   System (Rm_r etc_ldap)
     \<notin> set (trace (snd (ldap_migration (files_shell None) ''20210101-120000'' ex_body ex_machine))) \<and>
   System (Rm_r var_lib_ldap)
     \<notin> set (trace (snd (ldap_migration (files_shell None) ''20210101-120000'' ex_body ex_machine))) \<and>
   System (Rm_r etc_yunohost_apps)
     \<notin> set (trace (snd (ldap_migration (files_shell None) ''20210101-120000'' ex_body ex_machine)))"
  by (simp add: ldap_migration_def ldap_backup_def ldap_rollback_def files_shell_def
        ex_body_def ex_machine_def ex_files_def os_system_def logged_def Let_def
        cp_r_def rm_r_def watched_def path_defs)

text \<open>The amended claim C2 on the same machine and body: the two files that the body rewrote
  have their old content again, the file that it created is still there.\<close>

theorem ldap_rollback_restores_backup_witness:
  "fst (ldap_migration (files_shell None) ''20210101-120000'' ex_body ex_machine)
     = Some (Exception ''boom'') \<and>
   os (snd (ldap_migration (files_shell None) ''20210101-120000'' ex_body ex_machine))
     [''var'', ''lib'', ''ldap'', ''data.mdb''] = Some ''old data'' \<and>
   os (snd (ldap_migration (files_shell None) ''20210101-120000'' ex_body ex_machine))
     [''etc'', ''ldap'', ''slapd.d'', ''cn=config.ldif''] = Some ''old config'' \<and>
   os (snd (ldap_migration (files_shell None) ''20210101-120000'' ex_body ex_machine))
     [''etc'', ''ldap'', ''slapd.d'', ''cn=new.ldif''] = None \<and>
   os (snd (ldap_migration (files_shell None) ''20210101-120000'' ex_body ex_machine))
     [''var'', ''lib'', ''ldap'', ''lock.mdb''] = Some ''left behind'' \<and>
   os (snd (ldap_migration (files_shell None) ''20210101-120000'' ex_body ex_machine))
     (backup_folder_at ''20210101-120000'' @ [''ldap_db'', ''data.mdb'']) = None"
proof -
  let ?now = "''20210101-120000''"
  let ?bf = "backup_folder_at ?now"
  let ?f1 = "os (snd (ldap_backup (files_shell None) ?now \<lparr>trace = [], os = ex_files\<rparr>))"
  let ?f2 = "snd (ex_body ?bf ?f1)"
  let ?R = "ldap_migration (files_shell None) ?now ex_body \<lparr>trace = [], os = ex_files\<rparr>"
  have 1: "\<forall>p. prefix ?bf p \<longrightarrow> ex_files p = None"
    by (auto simp: ex_files_def prefix_def backup_folder_at_def)
  have 2: "ex_body ?bf ?f1 = (Some (Exception ''boom''), ?f2)"
    by (simp add: ex_body_def)
  have 3: "\<forall>p. prefix ?bf p \<longrightarrow> ?f2 p = ?f1 p"
    by (auto simp: ex_body_def prefix_def backup_folder_at_def)
  note th = ldap_rollback_restores_backup [of ?now ex_files ex_body "[]" "Exception ''boom''" ?f2, OF 1 2 3]
  have w: "watched [''var'', ''lib'', ''ldap'', ''data.mdb'']"
    "watched [''var'', ''lib'', ''ldap'', ''lock.mdb'']"
    "prefix (etc_ldap @ [''slapd.d'']) [''etc'', ''ldap'', ''slapd.d'', ''cn=config.ldif'']"
    "prefix (etc_ldap @ [''slapd.d'']) [''etc'', ''ldap'', ''slapd.d'', ''cn=new.ldif'']"
    "\<not> prefix (etc_ldap @ [''slapd.d'']) [''var'', ''lib'', ''ldap'', ''lock.mdb'']"
    "prefix ?bf (?bf @ [''ldap_db'', ''data.mdb''])"
    by (simp_all add: watched_def path_defs)
  have f: "ex_files [''var'', ''lib'', ''ldap'', ''data.mdb''] = Some ''old data''"
    "ex_files [''etc'', ''ldap'', ''slapd.d'', ''cn=config.ldif''] = Some ''old config''"
    "ex_files [''etc'', ''ldap'', ''slapd.d'', ''cn=new.ldif''] = None"
    "ex_files [''var'', ''lib'', ''ldap'', ''lock.mdb''] = None"
    by (simp_all add: ex_files_def)
  have g: "?f2 [''var'', ''lib'', ''ldap'', ''lock.mdb''] = Some ''left behind''"
    by (simp add: ex_body_def)
  have a: "fst ?R = Some (Exception ''boom'')" using th by blast
  have b: "os (snd ?R) [''var'', ''lib'', ''ldap'', ''data.mdb''] = Some ''old data''"
    using th w(1) f(1) by (metis option.distinct(1))
  have c: "os (snd ?R) [''etc'', ''ldap'', ''slapd.d'', ''cn=config.ldif''] = Some ''old config''"
    using th w(3) f(2) by metis
  have d: "os (snd ?R) [''etc'', ''ldap'', ''slapd.d'', ''cn=new.ldif''] = None"
    using th w(4) f(3) by metis
  have e: "os (snd ?R) [''var'', ''lib'', ''ldap'', ''lock.mdb''] = Some ''left behind''"
    using th w(2,5) f(4) g by metis
  have h: "os (snd ?R) (?bf @ [''ldap_db'', ''data.mdb'']) = None"
    using th w(6) by blast
  show ?thesis
    unfolding ex_machine_def by (intro conjI a b c d e h)
qed

end
